theory Spec2Isabelle
  imports Main "HOL-Library.Sublist" "HOL-Library.List_Lexorder"
begin

section \<open>Python strings\<close>

text \<open>
  A Python \<open>str\<close> is a sequence of Unicode code points, and the program compares, lowers,
  strips and sorts such sequences. A string is therefore modelled as the list of its code
  points; the lexicographic order of \<open>HOL-Library.List_Lexorder\<close> on these lists is the order in
  which Python compares strings. Literals of the source are ASCII and are written with
  \<open>str\<close>.
\<close>

type_synonym pystr = "nat list"

definition str :: "string \<Rightarrow> pystr" where
  "str s = map of_char s"

definition in_ranges :: "(nat \<times> nat) list \<Rightarrow> nat \<Rightarrow> bool" where
  "in_ranges rs c = list_ex (\<lambda>(lo, hi). lo \<le> c \<and> c \<le> hi) rs"

subsection \<open>\<open>str.strip()\<close>\<close>

definition isspace :: "nat \<Rightarrow> bool" where
  \<comment> \<open>the code points that \<open>str.isspace\<close> accepts, which \<open>strip()\<close> removes\<close>
  "isspace c = in_ranges [(9, 13), (28, 32), (133, 133), (160, 160), (5760, 5760),
     (8192, 8202), (8232, 8233), (8239, 8239), (8287, 8287), (12288, 12288)] c"

definition strip :: "pystr \<Rightarrow> pystr" where
  "strip s = rev (dropWhile isspace (rev (dropWhile isspace s)))"

subsection \<open>\<open>str.lower()\<close> and \<open>str.upper()\<close>\<close>

text \<open>
  The case mappings are those of the Unicode character database that CPython 3.11 ships
  (Unicode 14.0). Below 128 only the letters change; above, the tables decide. A row
  \<open>(lo, hi, stride, delta)\<close> says that every \<open>stride\<close>-th code point from \<open>lo\<close> to \<open>hi\<close> is
  sent to itself plus \<open>delta\<close>.
\<close>

definition lower_ranges :: "(nat \<times> nat \<times> nat \<times> int) list" where
  \<comment> \<open>rows (lo, hi, stride, delta): str.lower() sends every stride-th code point from lo to hi to itself plus delta\<close>
  "lower_ranges = [
   (192, 214, 1, 32), (216, 222, 1, 32), (256, 302, 2, 1), (306, 310, 2, 1), (313, 327, 2, 1),
   (330, 374, 2, 1), (376, 376, 1, -121), (377, 381, 2, 1), (385, 385, 1, 210), (386, 388, 2, 1),
   (390, 390, 1, 206), (391, 391, 1, 1), (393, 394, 1, 205), (395, 395, 1, 1), (398, 398, 1, 79),
   (399, 399, 1, 202), (400, 400, 1, 203), (401, 401, 1, 1), (403, 403, 1, 205), (404, 404, 1,
   207), (406, 406, 1, 211), (407, 407, 1, 209), (408, 408, 1, 1), (412, 412, 1, 211), (413, 413,
   1, 213), (415, 415, 1, 214), (416, 420, 2, 1), (422, 422, 1, 218), (423, 423, 1, 1), (425, 425,
   1, 218), (428, 428, 1, 1), (430, 430, 1, 218), (431, 431, 1, 1), (433, 434, 1, 217), (435, 437,
   2, 1), (439, 439, 1, 219), (440, 440, 1, 1), (444, 444, 1, 1), (452, 452, 1, 2), (453, 453, 1,
   1), (455, 455, 1, 2), (456, 456, 1, 1), (458, 458, 1, 2), (459, 475, 2, 1), (478, 494, 2, 1),
   (497, 497, 1, 2), (498, 500, 2, 1), (502, 502, 1, -97), (503, 503, 1, -56), (504, 542, 2, 1),
   (544, 544, 1, -130), (546, 562, 2, 1), (570, 570, 1, 10795), (571, 571, 1, 1), (573, 573, 1,
   -163), (574, 574, 1, 10792), (577, 577, 1, 1), (579, 579, 1, -195), (580, 580, 1, 69), (581,
   581, 1, 71), (582, 590, 2, 1), (880, 882, 2, 1), (886, 886, 1, 1), (895, 895, 1, 116), (902,
   902, 1, 38), (904, 906, 1, 37), (908, 908, 1, 64), (910, 911, 1, 63), (913, 929, 1, 32), (932,
   939, 1, 32), (975, 975, 1, 8), (984, 1006, 2, 1), (1012, 1012, 1, -60), (1015, 1015, 1, 1),
   (1017, 1017, 1, -7), (1018, 1018, 1, 1), (1021, 1023, 1, -130), (1024, 1039, 1, 80), (1040,
   1071, 1, 32), (1120, 1152, 2, 1), (1162, 1214, 2, 1), (1216, 1216, 1, 15), (1217, 1229, 2, 1),
   (1232, 1326, 2, 1), (1329, 1366, 1, 48), (4256, 4293, 1, 7264), (4295, 4295, 1, 7264), (4301,
   4301, 1, 7264), (5024, 5103, 1, 38864), (5104, 5109, 1, 8), (7312, 7354, 1, -3008), (7357, 7359,
   1, -3008), (7680, 7828, 2, 1), (7838, 7838, 1, -7615), (7840, 7934, 2, 1), (7944, 7951, 1, -8),
   (7960, 7965, 1, -8), (7976, 7983, 1, -8), (7992, 7999, 1, -8), (8008, 8013, 1, -8), (8025, 8031,
   2, -8), (8040, 8047, 1, -8), (8072, 8079, 1, -8), (8088, 8095, 1, -8), (8104, 8111, 1, -8),
   (8120, 8121, 1, -8), (8122, 8123, 1, -74), (8124, 8124, 1, -9), (8136, 8139, 1, -86), (8140,
   8140, 1, -9), (8152, 8153, 1, -8), (8154, 8155, 1, -100), (8168, 8169, 1, -8), (8170, 8171, 1,
   -112), (8172, 8172, 1, -7), (8184, 8185, 1, -128), (8186, 8187, 1, -126), (8188, 8188, 1, -9),
   (8486, 8486, 1, -7517), (8490, 8490, 1, -8383), (8491, 8491, 1, -8262), (8498, 8498, 1, 28),
   (8544, 8559, 1, 16), (8579, 8579, 1, 1), (9398, 9423, 1, 26), (11264, 11311, 1, 48), (11360,
   11360, 1, 1), (11362, 11362, 1, -10743), (11363, 11363, 1, -3814), (11364, 11364, 1, -10727),
   (11367, 11371, 2, 1), (11373, 11373, 1, -10780), (11374, 11374, 1, -10749), (11375, 11375, 1,
   -10783), (11376, 11376, 1, -10782), (11378, 11378, 1, 1), (11381, 11381, 1, 1), (11390, 11391,
   1, -10815), (11392, 11490, 2, 1), (11499, 11501, 2, 1), (11506, 11506, 1, 1), (42560, 42604, 2,
   1), (42624, 42650, 2, 1), (42786, 42798, 2, 1), (42802, 42862, 2, 1), (42873, 42875, 2, 1),
   (42877, 42877, 1, -35332), (42878, 42886, 2, 1), (42891, 42891, 1, 1), (42893, 42893, 1,
   -42280), (42896, 42898, 2, 1), (42902, 42920, 2, 1), (42922, 42922, 1, -42308), (42923, 42923,
   1, -42319), (42924, 42924, 1, -42315), (42925, 42925, 1, -42305), (42926, 42926, 1, -42308),
   (42928, 42928, 1, -42258), (42929, 42929, 1, -42282), (42930, 42930, 1, -42261), (42931, 42931,
   1, 928), (42932, 42946, 2, 1), (42948, 42948, 1, -48), (42949, 42949, 1, -42307), (42950, 42950,
   1, -35384), (42951, 42953, 2, 1), (42960, 42960, 1, 1), (42966, 42968, 2, 1), (42997, 42997, 1,
   1), (65313, 65338, 1, 32), (66560, 66599, 1, 40), (66736, 66771, 1, 40), (66928, 66938, 1, 39),
   (66940, 66954, 1, 39), (66956, 66962, 1, 39), (66964, 66965, 1, 39), (68736, 68786, 1, 64),
   (71840, 71871, 1, 32), (93760, 93791, 1, 32), (125184, 125217, 1, 34)]"

definition lower_special :: "(nat \<times> nat list) list" where
  \<comment> \<open>code points that str.lower() sends to several code points\<close>
  "lower_special = [
   (304, [105, 775])]"

definition upper_ranges :: "(nat \<times> nat \<times> nat \<times> int) list" where
  \<comment> \<open>rows (lo, hi, stride, delta): str.upper() sends every stride-th code point from lo to hi to itself plus delta\<close>
  "upper_ranges = [
   (181, 181, 1, 743), (224, 246, 1, -32), (248, 254, 1, -32), (255, 255, 1, 121), (257, 303, 2,
   -1), (305, 305, 1, -232), (307, 311, 2, -1), (314, 328, 2, -1), (331, 375, 2, -1), (378, 382, 2,
   -1), (383, 383, 1, -300), (384, 384, 1, 195), (387, 389, 2, -1), (392, 392, 1, -1), (396, 396,
   1, -1), (402, 402, 1, -1), (405, 405, 1, 97), (409, 409, 1, -1), (410, 410, 1, 163), (414, 414,
   1, 130), (417, 421, 2, -1), (424, 424, 1, -1), (429, 429, 1, -1), (432, 432, 1, -1), (436, 438,
   2, -1), (441, 441, 1, -1), (445, 445, 1, -1), (447, 447, 1, 56), (453, 453, 1, -1), (454, 454,
   1, -2), (456, 456, 1, -1), (457, 457, 1, -2), (459, 459, 1, -1), (460, 460, 1, -2), (462, 476,
   2, -1), (477, 477, 1, -79), (479, 495, 2, -1), (498, 498, 1, -1), (499, 499, 1, -2), (501, 501,
   1, -1), (505, 543, 2, -1), (547, 563, 2, -1), (572, 572, 1, -1), (575, 576, 1, 10815), (578,
   578, 1, -1), (583, 591, 2, -1), (592, 592, 1, 10783), (593, 593, 1, 10780), (594, 594, 1,
   10782), (595, 595, 1, -210), (596, 596, 1, -206), (598, 599, 1, -205), (601, 601, 1, -202),
   (603, 603, 1, -203), (604, 604, 1, 42319), (608, 608, 1, -205), (609, 609, 1, 42315), (611, 611,
   1, -207), (613, 613, 1, 42280), (614, 614, 1, 42308), (616, 616, 1, -209), (617, 617, 1, -211),
   (618, 618, 1, 42308), (619, 619, 1, 10743), (620, 620, 1, 42305), (623, 623, 1, -211), (625,
   625, 1, 10749), (626, 626, 1, -213), (629, 629, 1, -214), (637, 637, 1, 10727), (640, 640, 1,
   -218), (642, 642, 1, 42307), (643, 643, 1, -218), (647, 647, 1, 42282), (648, 648, 1, -218),
   (649, 649, 1, -69), (650, 651, 1, -217), (652, 652, 1, -71), (658, 658, 1, -219), (669, 669, 1,
   42261), (670, 670, 1, 42258), (837, 837, 1, 84), (881, 883, 2, -1), (887, 887, 1, -1), (891,
   893, 1, 130), (940, 940, 1, -38), (941, 943, 1, -37), (945, 961, 1, -32), (962, 962, 1, -31),
   (963, 971, 1, -32), (972, 972, 1, -64), (973, 974, 1, -63), (976, 976, 1, -62), (977, 977, 1,
   -57), (981, 981, 1, -47), (982, 982, 1, -54), (983, 983, 1, -8), (985, 1007, 2, -1), (1008,
   1008, 1, -86), (1009, 1009, 1, -80), (1010, 1010, 1, 7), (1011, 1011, 1, -116), (1013, 1013, 1,
   -96), (1016, 1016, 1, -1), (1019, 1019, 1, -1), (1072, 1103, 1, -32), (1104, 1119, 1, -80),
   (1121, 1153, 2, -1), (1163, 1215, 2, -1), (1218, 1230, 2, -1), (1231, 1231, 1, -15), (1233,
   1327, 2, -1), (1377, 1414, 1, -48), (4304, 4346, 1, 3008), (4349, 4351, 1, 3008), (5112, 5117,
   1, -8), (7296, 7296, 1, -6254), (7297, 7297, 1, -6253), (7298, 7298, 1, -6244), (7299, 7300, 1,
   -6242), (7301, 7301, 1, -6243), (7302, 7302, 1, -6236), (7303, 7303, 1, -6181), (7304, 7304, 1,
   35266), (7545, 7545, 1, 35332), (7549, 7549, 1, 3814), (7566, 7566, 1, 35384), (7681, 7829, 2,
   -1), (7835, 7835, 1, -59), (7841, 7935, 2, -1), (7936, 7943, 1, 8), (7952, 7957, 1, 8), (7968,
   7975, 1, 8), (7984, 7991, 1, 8), (8000, 8005, 1, 8), (8017, 8023, 2, 8), (8032, 8039, 1, 8),
   (8048, 8049, 1, 74), (8050, 8053, 1, 86), (8054, 8055, 1, 100), (8056, 8057, 1, 128), (8058,
   8059, 1, 112), (8060, 8061, 1, 126), (8112, 8113, 1, 8), (8126, 8126, 1, -7205), (8144, 8145, 1,
   8), (8160, 8161, 1, 8), (8165, 8165, 1, 7), (8526, 8526, 1, -28), (8560, 8575, 1, -16), (8580,
   8580, 1, -1), (9424, 9449, 1, -26), (11312, 11359, 1, -48), (11361, 11361, 1, -1), (11365,
   11365, 1, -10795), (11366, 11366, 1, -10792), (11368, 11372, 2, -1), (11379, 11379, 1, -1),
   (11382, 11382, 1, -1), (11393, 11491, 2, -1), (11500, 11502, 2, -1), (11507, 11507, 1, -1),
   (11520, 11557, 1, -7264), (11559, 11559, 1, -7264), (11565, 11565, 1, -7264), (42561, 42605, 2,
   -1), (42625, 42651, 2, -1), (42787, 42799, 2, -1), (42803, 42863, 2, -1), (42874, 42876, 2, -1),
   (42879, 42887, 2, -1), (42892, 42892, 1, -1), (42897, 42899, 2, -1), (42900, 42900, 1, 48),
   (42903, 42921, 2, -1), (42933, 42947, 2, -1), (42952, 42954, 2, -1), (42961, 42961, 1, -1),
   (42967, 42969, 2, -1), (42998, 42998, 1, -1), (43859, 43859, 1, -928), (43888, 43967, 1,
   -38864), (65345, 65370, 1, -32), (66600, 66639, 1, -40), (66776, 66811, 1, -40), (66967, 66977,
   1, -39), (66979, 66993, 1, -39), (66995, 67001, 1, -39), (67003, 67004, 1, -39), (68800, 68850,
   1, -64), (71872, 71903, 1, -32), (93792, 93823, 1, -32), (125218, 125251, 1, -34)]"

definition upper_special :: "(nat \<times> nat list) list" where
  \<comment> \<open>code points that str.upper() sends to several code points\<close>
  "upper_special = [
   (223, [83, 83]), (329, [700, 78]), (496, [74, 780]), (912, [921, 776, 769]), (944, [933, 776,
   769]), (1415, [1333, 1362]), (7830, [72, 817]), (7831, [84, 776]), (7832, [87, 778]), (7833,
   [89, 778]), (7834, [65, 702]), (8016, [933, 787]), (8018, [933, 787, 768]), (8020, [933, 787,
   769]), (8022, [933, 787, 834]), (8064, [7944, 921]), (8065, [7945, 921]), (8066, [7946, 921]),
   (8067, [7947, 921]), (8068, [7948, 921]), (8069, [7949, 921]), (8070, [7950, 921]), (8071,
   [7951, 921]), (8072, [7944, 921]), (8073, [7945, 921]), (8074, [7946, 921]), (8075, [7947,
   921]), (8076, [7948, 921]), (8077, [7949, 921]), (8078, [7950, 921]), (8079, [7951, 921]),
   (8080, [7976, 921]), (8081, [7977, 921]), (8082, [7978, 921]), (8083, [7979, 921]), (8084,
   [7980, 921]), (8085, [7981, 921]), (8086, [7982, 921]), (8087, [7983, 921]), (8088, [7976,
   921]), (8089, [7977, 921]), (8090, [7978, 921]), (8091, [7979, 921]), (8092, [7980, 921]),
   (8093, [7981, 921]), (8094, [7982, 921]), (8095, [7983, 921]), (8096, [8040, 921]), (8097,
   [8041, 921]), (8098, [8042, 921]), (8099, [8043, 921]), (8100, [8044, 921]), (8101, [8045,
   921]), (8102, [8046, 921]), (8103, [8047, 921]), (8104, [8040, 921]), (8105, [8041, 921]),
   (8106, [8042, 921]), (8107, [8043, 921]), (8108, [8044, 921]), (8109, [8045, 921]), (8110,
   [8046, 921]), (8111, [8047, 921]), (8114, [8122, 921]), (8115, [913, 921]), (8116, [902, 921]),
   (8118, [913, 834]), (8119, [913, 834, 921]), (8124, [913, 921]), (8130, [8138, 921]), (8131,
   [919, 921]), (8132, [905, 921]), (8134, [919, 834]), (8135, [919, 834, 921]), (8140, [919,
   921]), (8146, [921, 776, 768]), (8147, [921, 776, 769]), (8150, [921, 834]), (8151, [921, 776,
   834]), (8162, [933, 776, 768]), (8163, [933, 776, 769]), (8164, [929, 787]), (8166, [933, 834]),
   (8167, [933, 776, 834]), (8178, [8186, 921]), (8179, [937, 921]), (8180, [911, 921]), (8182,
   [937, 834]), (8183, [937, 834, 921]), (8188, [937, 921]), (64256, [70, 70]), (64257, [70, 73]),
   (64258, [70, 76]), (64259, [70, 70, 73]), (64260, [70, 70, 76]), (64261, [83, 84]), (64262, [83,
   84]), (64275, [1348, 1350]), (64276, [1348, 1333]), (64277, [1348, 1339]), (64278, [1358,
   1350]), (64279, [1348, 1341])]"

definition cased_ranges :: "(nat \<times> nat) list" where
  \<comment> \<open>inclusive ranges of the code points with the property Cased\<close>
  "cased_ranges = [
   (65, 90), (97, 122), (170, 170), (181, 181), (186, 186), (192, 214), (216, 246), (248, 442),
   (444, 447), (452, 659), (661, 696), (704, 705), (736, 740), (837, 837), (880, 883), (886, 887),
   (890, 893), (895, 895), (902, 902), (904, 906), (908, 908), (910, 929), (931, 1013), (1015,
   1153), (1162, 1327), (1329, 1366), (1376, 1416), (4256, 4293), (4295, 4295), (4301, 4301),
   (4304, 4346), (4349, 4351), (5024, 5109), (5112, 5117), (7296, 7304), (7312, 7354), (7357,
   7359), (7424, 7615), (7680, 7957), (7960, 7965), (7968, 8005), (8008, 8013), (8016, 8023),
   (8025, 8025), (8027, 8027), (8029, 8029), (8031, 8061), (8064, 8116), (8118, 8124), (8126,
   8126), (8130, 8132), (8134, 8140), (8144, 8147), (8150, 8155), (8160, 8172), (8178, 8180),
   (8182, 8188), (8305, 8305), (8319, 8319), (8336, 8348), (8450, 8450), (8455, 8455), (8458,
   8467), (8469, 8469), (8473, 8477), (8484, 8484), (8486, 8486), (8488, 8488), (8490, 8493),
   (8495, 8500), (8505, 8505), (8508, 8511), (8517, 8521), (8526, 8526), (8544, 8575), (8579,
   8580), (9398, 9449), (11264, 11492), (11499, 11502), (11506, 11507), (11520, 11557), (11559,
   11559), (11565, 11565), (42560, 42605), (42624, 42653), (42786, 42887), (42891, 42894), (42896,
   42954), (42960, 42961), (42963, 42963), (42965, 42969), (42997, 42998), (43000, 43002), (43824,
   43866), (43868, 43880), (43888, 43967), (64256, 64262), (64275, 64279), (65313, 65338), (65345,
   65370), (66560, 66639), (66736, 66771), (66776, 66811), (66928, 66938), (66940, 66954), (66956,
   66962), (66964, 66965), (66967, 66977), (66979, 66993), (66995, 67001), (67003, 67004), (67456,
   67456), (67459, 67461), (67463, 67504), (67506, 67514), (68736, 68786), (68800, 68850), (71840,
   71903), (93760, 93823), (119808, 119892), (119894, 119964), (119966, 119967), (119970, 119970),
   (119973, 119974), (119977, 119980), (119982, 119993), (119995, 119995), (119997, 120003),
   (120005, 120069), (120071, 120074), (120077, 120084), (120086, 120092), (120094, 120121),
   (120123, 120126), (120128, 120132), (120134, 120134), (120138, 120144), (120146, 120485),
   (120488, 120512), (120514, 120538), (120540, 120570), (120572, 120596), (120598, 120628),
   (120630, 120654), (120656, 120686), (120688, 120712), (120714, 120744), (120746, 120770),
   (120772, 120779), (122624, 122633), (122635, 122654), (125184, 125251), (127280, 127305),
   (127312, 127337), (127344, 127369)]"

definition case_ignorable_ranges :: "(nat \<times> nat) list" where
  \<comment> \<open>inclusive ranges of the code points with the property Case_Ignorable\<close>
  "case_ignorable_ranges = [
   (39, 39), (46, 46), (58, 58), (94, 94), (96, 96), (168, 168), (173, 173), (175, 175), (180,
   180), (183, 184), (688, 879), (884, 885), (890, 890), (900, 901), (903, 903), (1155, 1161),
   (1369, 1369), (1375, 1375), (1425, 1469), (1471, 1471), (1473, 1474), (1476, 1477), (1479,
   1479), (1524, 1524), (1536, 1541), (1552, 1562), (1564, 1564), (1600, 1600), (1611, 1631),
   (1648, 1648), (1750, 1757), (1759, 1768), (1770, 1773), (1807, 1807), (1809, 1809), (1840,
   1866), (1958, 1968), (2027, 2037), (2042, 2042), (2045, 2045), (2070, 2093), (2137, 2139),
   (2184, 2184), (2192, 2193), (2200, 2207), (2249, 2306), (2362, 2362), (2364, 2364), (2369,
   2376), (2381, 2381), (2385, 2391), (2402, 2403), (2417, 2417), (2433, 2433), (2492, 2492),
   (2497, 2500), (2509, 2509), (2530, 2531), (2558, 2558), (2561, 2562), (2620, 2620), (2625,
   2626), (2631, 2632), (2635, 2637), (2641, 2641), (2672, 2673), (2677, 2677), (2689, 2690),
   (2748, 2748), (2753, 2757), (2759, 2760), (2765, 2765), (2786, 2787), (2810, 2815), (2817,
   2817), (2876, 2876), (2879, 2879), (2881, 2884), (2893, 2893), (2901, 2902), (2914, 2915),
   (2946, 2946), (3008, 3008), (3021, 3021), (3072, 3072), (3076, 3076), (3132, 3132), (3134,
   3136), (3142, 3144), (3146, 3149), (3157, 3158), (3170, 3171), (3201, 3201), (3260, 3260),
   (3263, 3263), (3270, 3270), (3276, 3277), (3298, 3299), (3328, 3329), (3387, 3388), (3393,
   3396), (3405, 3405), (3426, 3427), (3457, 3457), (3530, 3530), (3538, 3540), (3542, 3542),
   (3633, 3633), (3636, 3642), (3654, 3662), (3761, 3761), (3764, 3772), (3782, 3782), (3784,
   3789), (3864, 3865), (3893, 3893), (3895, 3895), (3897, 3897), (3953, 3966), (3968, 3972),
   (3974, 3975), (3981, 3991), (3993, 4028), (4038, 4038), (4141, 4144), (4146, 4151), (4153,
   4154), (4157, 4158), (4184, 4185), (4190, 4192), (4209, 4212), (4226, 4226), (4229, 4230),
   (4237, 4237), (4253, 4253), (4348, 4348), (4957, 4959), (5906, 5908), (5938, 5939), (5970,
   5971), (6002, 6003), (6068, 6069), (6071, 6077), (6086, 6086), (6089, 6099), (6103, 6103),
   (6109, 6109), (6155, 6159), (6211, 6211), (6277, 6278), (6313, 6313), (6432, 6434), (6439,
   6440), (6450, 6450), (6457, 6459), (6679, 6680), (6683, 6683), (6742, 6742), (6744, 6750),
   (6752, 6752), (6754, 6754), (6757, 6764), (6771, 6780), (6783, 6783), (6823, 6823), (6832,
   6862), (6912, 6915), (6964, 6964), (6966, 6970), (6972, 6972), (6978, 6978), (7019, 7027),
   (7040, 7041), (7074, 7077), (7080, 7081), (7083, 7085), (7142, 7142), (7144, 7145), (7149,
   7149), (7151, 7153), (7212, 7219), (7222, 7223), (7288, 7293), (7376, 7378), (7380, 7392),
   (7394, 7400), (7405, 7405), (7412, 7412), (7416, 7417), (7468, 7530), (7544, 7544), (7579,
   7679), (8125, 8125), (8127, 8129), (8141, 8143), (8157, 8159), (8173, 8175), (8189, 8190),
   (8203, 8207), (8216, 8217), (8228, 8228), (8231, 8231), (8234, 8238), (8288, 8292), (8294,
   8303), (8305, 8305), (8319, 8319), (8336, 8348), (8400, 8432), (11388, 11389), (11503, 11505),
   (11631, 11631), (11647, 11647), (11744, 11775), (11823, 11823), (12293, 12293), (12330, 12333),
   (12337, 12341), (12347, 12347), (12441, 12446), (12540, 12542), (40981, 40981), (42232, 42237),
   (42508, 42508), (42607, 42610), (42612, 42621), (42623, 42623), (42652, 42655), (42736, 42737),
   (42752, 42785), (42864, 42864), (42888, 42890), (42994, 42996), (43000, 43001), (43010, 43010),
   (43014, 43014), (43019, 43019), (43045, 43046), (43052, 43052), (43204, 43205), (43232, 43249),
   (43263, 43263), (43302, 43309), (43335, 43345), (43392, 43394), (43443, 43443), (43446, 43449),
   (43452, 43453), (43471, 43471), (43493, 43494), (43561, 43566), (43569, 43570), (43573, 43574),
   (43587, 43587), (43596, 43596), (43632, 43632), (43644, 43644), (43696, 43696), (43698, 43700),
   (43703, 43704), (43710, 43711), (43713, 43713), (43741, 43741), (43756, 43757), (43763, 43764),
   (43766, 43766), (43867, 43871), (43881, 43883), (44005, 44005), (44008, 44008), (44013, 44013),
   (64286, 64286), (64434, 64450), (65024, 65039), (65043, 65043), (65056, 65071), (65106, 65106),
   (65109, 65109), (65279, 65279), (65287, 65287), (65294, 65294), (65306, 65306), (65342, 65342),
   (65344, 65344), (65392, 65392), (65438, 65439), (65507, 65507), (65529, 65531), (66045, 66045),
   (66272, 66272), (66422, 66426), (67456, 67461), (67463, 67504), (67506, 67514), (68097, 68099),
   (68101, 68102), (68108, 68111), (68152, 68154), (68159, 68159), (68325, 68326), (68900, 68903),
   (69291, 69292), (69446, 69456), (69506, 69509), (69633, 69633), (69688, 69702), (69744, 69744),
   (69747, 69748), (69759, 69761), (69811, 69814), (69817, 69818), (69821, 69821), (69826, 69826),
   (69837, 69837), (69888, 69890), (69927, 69931), (69933, 69940), (70003, 70003), (70016, 70017),
   (70070, 70078), (70089, 70092), (70095, 70095), (70191, 70193), (70196, 70196), (70198, 70199),
   (70206, 70206), (70367, 70367), (70371, 70378), (70400, 70401), (70459, 70460), (70464, 70464),
   (70502, 70508), (70512, 70516), (70712, 70719), (70722, 70724), (70726, 70726), (70750, 70750),
   (70835, 70840), (70842, 70842), (70847, 70848), (70850, 70851), (71090, 71093), (71100, 71101),
   (71103, 71104), (71132, 71133), (71219, 71226), (71229, 71229), (71231, 71232), (71339, 71339),
   (71341, 71341), (71344, 71349), (71351, 71351), (71453, 71455), (71458, 71461), (71463, 71467),
   (71727, 71735), (71737, 71738), (71995, 71996), (71998, 71998), (72003, 72003), (72148, 72151),
   (72154, 72155), (72160, 72160), (72193, 72202), (72243, 72248), (72251, 72254), (72263, 72263),
   (72273, 72278), (72281, 72283), (72330, 72342), (72344, 72345), (72752, 72758), (72760, 72765),
   (72767, 72767), (72850, 72871), (72874, 72880), (72882, 72883), (72885, 72886), (73009, 73014),
   (73018, 73018), (73020, 73021), (73023, 73029), (73031, 73031), (73104, 73105), (73109, 73109),
   (73111, 73111), (73459, 73460), (78896, 78904), (92912, 92916), (92976, 92982), (92992, 92995),
   (94031, 94031), (94095, 94111), (94176, 94177), (94179, 94180), (110576, 110579), (110581,
   110587), (110589, 110590), (113821, 113822), (113824, 113827), (118528, 118573), (118576,
   118598), (119143, 119145), (119155, 119170), (119173, 119179), (119210, 119213), (119362,
   119364), (121344, 121398), (121403, 121452), (121461, 121461), (121476, 121476), (121499,
   121503), (121505, 121519), (122880, 122886), (122888, 122904), (122907, 122913), (122915,
   122916), (122918, 122922), (123184, 123197), (123566, 123566), (123628, 123631), (125136,
   125142), (125252, 125259), (127995, 127999), (917505, 917505), (917536, 917631), (917760,
   917999)]"

fun lookup_range :: "(nat \<times> nat \<times> nat \<times> int) list \<Rightarrow> nat \<Rightarrow> nat option" where
  "lookup_range [] c = None"
| "lookup_range ((lo, hi, stride, delta) # rs) c =
     (if lo \<le> c \<and> c \<le> hi \<and> (c - lo) mod stride = 0 then Some (nat (int c + delta))
      else lookup_range rs c)"

definition to_lower_full :: "nat \<Rightarrow> pystr" where
  "to_lower_full c =
     (if c < 128 then [if 65 \<le> c \<and> c \<le> 90 then c + 32 else c]
      else case map_of lower_special c of
             Some v \<Rightarrow> v
           | None \<Rightarrow> (case lookup_range lower_ranges c of Some d \<Rightarrow> [d] | None \<Rightarrow> [c]))"

definition to_upper_full :: "nat \<Rightarrow> pystr" where
  "to_upper_full c =
     (if c < 128 then [if 97 \<le> c \<and> c \<le> 122 then c - 32 else c]
      else case map_of upper_special c of
             Some v \<Rightarrow> v
           | None \<Rightarrow> (case lookup_range upper_ranges c of Some d \<Rightarrow> [d] | None \<Rightarrow> [c]))"

definition cased :: "nat \<Rightarrow> bool" where
  "cased c = in_ranges cased_ranges c"

definition case_ignorable :: "nat \<Rightarrow> bool" where
  "case_ignorable c = in_ranges case_ignorable_ranges c"

definition final_sigma :: "pystr \<Rightarrow> pystr \<Rightarrow> bool" where
  \<comment> \<open>U+03A3 lowers to the final sigma when a cased letter precedes it and none follows,
      case-ignorable code points skipped on both sides\<close>
  "final_sigma seen rest =
     ((case dropWhile case_ignorable (rev seen) of [] \<Rightarrow> False | c # _ \<Rightarrow> cased c) \<and>
      (case dropWhile case_ignorable rest of [] \<Rightarrow> True | c # _ \<Rightarrow> \<not> cased c))"

fun lower_from :: "pystr \<Rightarrow> pystr \<Rightarrow> pystr" where
  "lower_from seen [] = []"
| "lower_from seen (c # cs) =
     (if c = 931 then [if final_sigma seen cs then 962 else 963] else to_lower_full c)
       @ lower_from (seen @ [c]) cs"

definition lower :: "pystr \<Rightarrow> pystr" where
  "lower s = lower_from [] s"

definition upper :: "pystr \<Rightarrow> pystr" where
  "upper s = concat (map to_upper_full s)"

subsection \<open>The operator \<open>in\<close>, and \<open>str.join\<close>\<close>

fun is_in :: "pystr \<Rightarrow> pystr \<Rightarrow> bool" where
  "is_in k [] = (k = [])"
| "is_in k (c # cs) = (prefix k (c # cs) \<or> is_in k cs)"

fun join :: "pystr \<Rightarrow> pystr list \<Rightarrow> pystr" where
  "join sep [] = []"
| "join sep [x] = x"
| "join sep (x # y # ys) = x @ sep @ join sep (y # ys)"

subsection \<open>Truthiness of optional strings\<close>

definition truthy :: "pystr option \<Rightarrow> bool" where
  \<comment> \<open>\<open>if x:\<close> for \<open>x\<close> a string or \<open>None\<close>\<close>
  "truthy x = (case x of None \<Rightarrow> False | Some t \<Rightarrow> t \<noteq> [])"

definition or_else :: "pystr option \<Rightarrow> pystr \<Rightarrow> pystr" where
  \<comment> \<open>\<open>x or d\<close> for \<open>x\<close> a string or \<open>None\<close>\<close>
  "or_else x d = (case x of None \<Rightarrow> d | Some t \<Rightarrow> if t = [] then d else t)"

section \<open>The regular expressions the program uses\<close>

text \<open>
  \<open>EMAIL_REGEX\<close> is a sequence of character classes, each with a greedy repetition
  count. An atom is such a class with its least and (optional) greatest count;
  \<open>match_here\<close> is the backtracking matcher of \<open>re\<close> on these sequences: each atom first
  takes as many code points as it can and gives them back one at a time while the rest of
  the pattern fails. It returns where the match ends. \<open>search\<close> tries the start positions
  from left to right and returns the matched text, as \<open>pattern.search(s).group(0)\<close>.
\<close>

datatype atom = Atom (accepts: "nat \<Rightarrow> bool") (least: nat) (most: "nat option")

definition greedy :: "atom \<Rightarrow> pystr \<Rightarrow> nat" where
  "greedy a s =
     (let run = length (takeWhile (accepts a) s)
      in case most a of None \<Rightarrow> run | Some m \<Rightarrow> min m run)"

fun backtrack :: "(pystr \<Rightarrow> nat option) \<Rightarrow> pystr \<Rightarrow> nat \<Rightarrow> nat \<Rightarrow> nat option" where
  "backtrack k s lo 0 = (if 0 < lo then None else k s)"
| "backtrack k s lo (Suc n) =
     (if Suc n < lo then None
      else case k (drop (Suc n) s) of
             Some e \<Rightarrow> Some (Suc n + e)
           | None \<Rightarrow> backtrack k s lo n)"

primrec match_here :: "atom list \<Rightarrow> pystr \<Rightarrow> nat option" where
  "match_here [] s = Some 0"
| "match_here (a # as) s = backtrack (match_here as) s (least a) (greedy a s)"

fun search :: "atom list \<Rightarrow> pystr \<Rightarrow> pystr option" where
  "search r [] = (case match_here r [] of Some e \<Rightarrow> Some [] | None \<Rightarrow> None)"
| "search r (c # cs) =
     (case match_here r (c # cs) of
        Some e \<Rightarrow> Some (take e (c # cs))
      | None \<Rightarrow> search r cs)"

definition alpha :: "nat \<Rightarrow> bool" where
  \<comment> \<open>\<open>[A-Za-z]\<close>\<close>
  "alpha c = ((65 \<le> c \<and> c \<le> 90) \<or> (97 \<le> c \<and> c \<le> 122))"

definition digit :: "nat \<Rightarrow> bool" where
  \<comment> \<open>\<open>[0-9]\<close>\<close>
  "digit c = (48 \<le> c \<and> c \<le> 57)"

definition local_char :: "nat \<Rightarrow> bool" where
  \<comment> \<open>\<open>[A-Za-z0-9._%+-]\<close>\<close>
  "local_char c = (alpha c \<or> digit c \<or> c \<in> set (str ''._%+-''))"

definition domain_char :: "nat \<Rightarrow> bool" where
  \<comment> \<open>\<open>[A-Za-z0-9.-]\<close>\<close>
  "domain_char c = (alpha c \<or> digit c \<or> c \<in> set (str ''.-''))"

definition EMAIL_REGEX :: "atom list" where
  \<comment> \<open>\<open>[A-Za-z0-9._%+-]+@[A-Za-z0-9.-]+\.[A-Za-z]{2,}\<close>\<close>
  "EMAIL_REGEX =
     [Atom local_char 1 None,
      Atom (\<lambda>c. c = of_char CHR ''@'') 1 (Some 1),
      Atom domain_char 1 None,
      Atom (\<lambda>c. c = of_char CHR ''.'') 1 (Some 1),
      Atom alpha 2 None]"

section \<open>Element trees\<close>

text \<open>
  An element of \<open>xml.etree.ElementTree\<close> has a tag, a text (the character data before its
  first child, \<open>None\<close> when there is none) and children. The program reads nothing else.
  The paths it uses are \<open>.//T\<close> (the descendants with tag \<open>T\<close>, in document order, the
  element itself left out), \<open>T\<close> (the children with tag \<open>T\<close>) and \<open>.//T/U\<close>.
\<close>

datatype element = Element (tag: pystr) (etext: "pystr option") (children: "element list")

fun descendants :: "element \<Rightarrow> element list" where
  "descendants (Element t x cs) = concat (map (\<lambda>c. c # descendants c) cs)"

definition findall_desc :: "element \<Rightarrow> pystr \<Rightarrow> element list" where
  \<comment> \<open>\<open>e.findall(".//T")\<close>\<close>
  "findall_desc e t = filter (\<lambda>d. tag d = t) (descendants e)"

definition findall_child :: "element \<Rightarrow> pystr \<Rightarrow> element list" where
  \<comment> \<open>\<open>e.findall("T")\<close>\<close>
  "findall_child e t = filter (\<lambda>d. tag d = t) (children e)"

definition findall_desc_child :: "element \<Rightarrow> pystr \<Rightarrow> pystr \<Rightarrow> element list" where
  \<comment> \<open>\<open>e.findall(".//T/U")\<close>\<close>
  "findall_desc_child e t u = concat (map (\<lambda>d. findall_child d u) (findall_desc e t))"

definition first :: "'a list \<Rightarrow> 'a option" where
  "first xs = (case xs of [] \<Rightarrow> None | x # _ \<Rightarrow> Some x)"

definition find_desc :: "element \<Rightarrow> pystr \<Rightarrow> element option" where
  \<comment> \<open>\<open>e.find(".//T")\<close>\<close>
  "find_desc e t = first (findall_desc e t)"

definition text_of :: "element \<Rightarrow> pystr" where
  \<comment> \<open>what \<open>findtext\<close> returns for an element it found: its text, \<open>""\<close> when it has none\<close>
  "text_of e = (case etext e of None \<Rightarrow> [] | Some t \<Rightarrow> t)"

definition findtext_desc :: "element \<Rightarrow> pystr \<Rightarrow> pystr option" where
  \<comment> \<open>\<open>e.findtext(".//T")\<close>\<close>
  "findtext_desc e t = map_option text_of (find_desc e t)"

definition findtext_child :: "element \<Rightarrow> pystr \<Rightarrow> pystr option" where
  \<comment> \<open>\<open>e.findtext("T")\<close>\<close>
  "findtext_child e t = map_option text_of (first (findall_child e t))"

section \<open>The keyword classifier\<close>

definition ACADEMIC_KEYWORDS :: "pystr list" where
  "ACADEMIC_KEYWORDS = map str
     [''university'', ''college'', ''institute'', ''school of'', ''department of'',
      ''faculty of'', ''research center'', ''centre for'', ''hospital'', ''medical center'',
      ''clinic'']"

definition COMPANY_KEYWORDS :: "pystr list" where
  "COMPANY_KEYWORDS = map str
     [''inc'', ''ltd'', ''llc'', ''gmbh'', ''corporation'', ''corp'', ''pharma'', ''biotech'',
      ''biotechnology'', ''technologies'', ''systems'', ''bio'', ''laboratories'',
      ''laboratory'', ''sas'', ''sa'', ''nv'', ''ab'', ''co.'', ''ag'']"

definition contains_keyword :: "pystr \<Rightarrow> pystr list \<Rightarrow> bool" where
  "contains_keyword text keywords =
     (let low = lower text in list_ex (\<lambda>k. is_in (lower k) low) keywords)"

section \<open>Extraction of the records\<close>

record paper =
  PubmedID :: pystr
  Title :: pystr
  Publication_Date :: pystr
  Non_academic_Authors :: pystr
  Company_Affiliations :: pystr
  Corresponding_Author_Email :: pystr

record author =
  name :: pystr
  affiliations :: "pystr list"

definition pub_date_of :: "element \<Rightarrow> pystr" where
  \<comment> \<open>lines 72 to 83\<close>
  "pub_date_of article =
     (case find_desc article (str ''PubDate'') of
        None \<Rightarrow> []
      | Some pubdate_node \<Rightarrow>
          (let year = findtext_child pubdate_node (str ''Year'');
               medline = findtext_child pubdate_node (str ''MedlineDate'');
               month = or_else (findtext_child pubdate_node (str ''Month'')) (str ''01'');
               day = or_else (findtext_child pubdate_node (str ''Day'')) (str ''01'')
           in if truthy year then or_else year [] @ str ''-'' @ month @ str ''-'' @ day
              else if truthy medline then or_else medline []
              else []))"

fun collect_affs :: "element list \<Rightarrow> pystr list" where
  \<comment> \<open>lines 92 to 94\<close>
  "collect_affs [] = []"
| "collect_affs (aff # rest) =
     (if truthy (etext aff) then strip (text_of aff) # collect_affs rest
      else collect_affs rest)"

definition author_info :: "element \<Rightarrow> author" where
  \<comment> \<open>lines 88 to 95\<close>
  "author_info a =
     (let lastname = or_else (findtext_child a (str ''LastName'')) [];
          forename = or_else (findtext_child a (str ''ForeName'')) [];
          nm = strip (forename @ str '' '' @ lastname);
          affs = collect_affs (findall_desc_child a (str ''AffiliationInfo'') (str ''Affiliation''))
      in \<lparr>name = nm, affiliations = affs\<rparr>)"

definition authors_info :: "element \<Rightarrow> author list" where
  \<comment> \<open>lines 86 to 95\<close>
  "authors_info article = map author_info (findall_desc article (str ''Author''))"

fun classify_affs :: "pystr list \<Rightarrow> pystr list \<Rightarrow> pystr list" where
  \<comment> \<open>lines 104 to 107, on the list of company affiliations so far\<close>
  "classify_affs [] company_affiliations = company_affiliations"
| "classify_affs (aff # rest) company_affiliations =
     classify_affs rest
       (if contains_keyword aff COMPANY_KEYWORDS then company_affiliations @ [aff]
        else company_affiliations)"

fun classify :: "author list \<Rightarrow> pystr list \<times> pystr list \<Rightarrow> pystr list \<times> pystr list" where
  \<comment> \<open>lines 100 to 107, on the two lists so far\<close>
  "classify [] acc = acc"
| "classify (a # rest) (non_academic_authors, company_affiliations) =
     (let is_academic = list_ex (\<lambda>aff. contains_keyword aff ACADEMIC_KEYWORDS) (affiliations a)
      in classify rest
           (if \<not> is_academic \<and> name a \<noteq> [] then non_academic_authors @ [name a]
            else non_academic_authors,
            classify_affs (affiliations a) company_affiliations))"

definition non_academic_authors :: "element \<Rightarrow> pystr list" where
  "non_academic_authors article = fst (classify (authors_info article) ([], []))"

definition company_affiliations :: "element \<Rightarrow> pystr list" where
  "company_affiliations article = snd (classify (authors_info article) ([], []))"

definition sorted_set :: "pystr list \<Rightarrow> pystr list" where
  \<comment> \<open>\<open>sorted(set(xs))\<close>\<close>
  "sorted_set xs = sort (remdups xs)"

fun scan_affs :: "pystr list \<Rightarrow> pystr" where
  \<comment> \<open>lines 115 to 119: the match of the first affiliation that has one, else \<open>""\<close>\<close>
  "scan_affs [] = []"
| "scan_affs (aff # rest) =
     (case search EMAIL_REGEX aff of Some m \<Rightarrow> m | None \<Rightarrow> scan_affs rest)"

fun scan_authors :: "author list \<Rightarrow> pystr" where
  \<comment> \<open>lines 113 to 121\<close>
  "scan_authors [] = []"
| "scan_authors (a # rest) =
     (let email = scan_affs (affiliations a)
      in if email \<noteq> [] then email else scan_authors rest)"

definition extract_record :: "element \<Rightarrow> paper" where
  \<comment> \<open>the body of the loop over the articles, lines 69 to 130\<close>
  "extract_record article =
     (let pmid = or_else (findtext_desc article (str ''PMID'')) [];
          title = or_else (findtext_desc article (str ''ArticleTitle'')) [];
          non_academic = non_academic_authors article;
          company_affiliations_unique = sorted_set (company_affiliations article);
          email = scan_authors (authors_info article)
      in \<lparr>PubmedID = pmid,
          Title = title,
          Publication_Date = pub_date_of article,
          Non_academic_Authors =
            (if non_academic \<noteq> [] then join (str ''; '') (sorted_set non_academic) else []),
          Company_Affiliations = join (str ''; '') company_affiliations_unique,
          Corresponding_Author_Email = email\<rparr>)"

section \<open>The pipeline\<close>

text \<open>
  Exceptions are values: a function that may raise returns \<open>error + 'a\<close>. The handlers of
  \<open>main\<close> tell \<open>requests.HTTPError\<close> from every other exception; the failure of
  \<open>ET.fromstring\<close> is \<open>ParseError\<close>. Each error carries its message.
\<close>

datatype error = HTTPError pystr | ParseError pystr | OtherError pystr

datatype pyval = PyStr pystr | PyInt int

type_synonym params = "(pystr \<times> pyval) list"

text \<open>
  What the program prints is kept as data: one constructor for each \<open>print\<close> of the source,
  with the values that its text interpolates.
\<close>

datatype message =
    Calling_esearch params  \<comment> \<open>\<open>[DEBUG] Calling esearch with params: {params}\<close>\<close>
  | Esearch_result int "pystr list"  \<comment> \<open>\<open>[DEBUG] esearch result count={count}, ids={idlist}\<close>\<close>
  | Calling_efetch params  \<comment> \<open>\<open>[DEBUG] Calling efetch with params: {params}\<close>\<close>
  | Extracted_record pystr paper  \<comment> \<open>\<open>[DEBUG] Extracted record for PMID {pmid}: {record}\<close>\<close>
  | No_papers_found  \<comment> \<open>\<open>No papers found for the query.\<close>\<close>
  | Total_hits int "pystr list"  \<comment> \<open>\<open>Total hits reported: {total}. Fetching PMIDs: {pmids}\<close>\<close>
  | HTTP_error pystr  \<comment> \<open>\<open>HTTP error during PubMed access: {e}\<close>\<close>
  | Unexpected_error pystr  \<comment> \<open>\<open>Unexpected error: {e}\<close>\<close>
  | Saved nat pystr  \<comment> \<open>\<open>Saved {len(papers)} records to {filename}\<close>\<close>

datatype event =
    Stderr message
  | Stdout message
  | Csv_to_file pystr "paper list"  \<comment> \<open>the header and one row for each paper, written to the file\<close>
  | Csv_to_stdout "paper list"  \<comment> \<open>the header and one row for each paper, on standard output\<close>

text \<open>
  The world outside the program: the two remote calls with the decoding of their
  responses (lines 37 to 41 and 56 to 58), the XML parser, and the opening of the output
  file. Each may raise.
\<close>

record world =
  search_response :: "params \<Rightarrow> error + (pystr list \<times> int)"
  fetch_response :: "params \<Rightarrow> error + pystr"
  fromstring :: "pystr \<Rightarrow> error + element"
  open_file :: "pystr \<Rightarrow> error option"

record args =
  query :: pystr
  debug :: bool
  file_path :: "pystr option"  \<comment> \<open>\<open>args.file\<close>\<close>
  retmax :: int
  api_key :: "pystr option"

definition debug_print :: "message \<Rightarrow> bool \<Rightarrow> event list" where
  "debug_print msg enabled = (if enabled then [Stderr msg] else [])"

definition with_api_key :: "params \<Rightarrow> pystr option \<Rightarrow> params" where
  \<comment> \<open>\<open>if api_key: params["api_key"] = api_key\<close>\<close>
  "with_api_key ps key = (if truthy key then ps @ [(str ''api_key'', PyStr (or_else key []))] else ps)"

definition esearch ::
  "world \<Rightarrow> pystr \<Rightarrow> int \<Rightarrow> pystr option \<Rightarrow> bool \<Rightarrow> (error + (pystr list \<times> int)) \<times> event list" where
  "esearch w term rmax key dbg =
     (let ps = with_api_key
                 [(str ''db'', PyStr (str ''pubmed'')), (str ''term'', PyStr term),
                  (str ''retmode'', PyStr (str ''json'')), (str ''retmax'', PyInt rmax)] key;
          out = debug_print (Calling_esearch ps) dbg
      in case search_response w ps of
           Inl e \<Rightarrow> (Inl e, out)
         | Inr (idlist, count) \<Rightarrow>
             (Inr (idlist, count), out @ debug_print (Esearch_result count idlist) dbg))"

definition efetch ::
  "world \<Rightarrow> pystr list \<Rightarrow> pystr option \<Rightarrow> bool \<Rightarrow> (error + pystr) \<times> event list" where
  "efetch w pmids key dbg =
     (if pmids = [] then (Inr [], [])
      else let ps = with_api_key
                      [(str ''db'', PyStr (str ''pubmed'')), (str ''id'', PyStr (join (str '','') pmids)),
                       (str ''retmode'', PyStr (str ''xml''))] key;
               out = debug_print (Calling_efetch ps) dbg
           in (fetch_response w ps, out))"

fun extract_loop :: "element list \<Rightarrow> bool \<Rightarrow> paper list \<times> event list" where
  \<comment> \<open>the loop of lines 68 to 132\<close>
  "extract_loop [] dbg = ([], [])"
| "extract_loop (article # rest) dbg =
     (let record = extract_record article;
          out = debug_print (Extracted_record (PubmedID record) record) dbg;
          (results, out') = extract_loop rest dbg
      in (record # results, out @ out'))"

definition extract_papers ::
  "(pystr \<Rightarrow> error + element) \<Rightarrow> pystr \<Rightarrow> bool \<Rightarrow> (error + paper list) \<times> event list" where
  \<comment> \<open>the first argument is \<open>ET.fromstring\<close>\<close>
  "extract_papers parse xml_text dbg =
     (case parse xml_text of
        Inl e \<Rightarrow> (Inl e, [])
      | Inr root \<Rightarrow>
          (let (results, out) = extract_loop (findall_desc root (str ''PubmedArticle'')) dbg
           in (Inr results, out)))"

definition output_csv :: "world \<Rightarrow> paper list \<Rightarrow> pystr option \<Rightarrow> error option \<times> event list" where
  "output_csv w papers filename =
     (if truthy filename then
        (case open_file w (or_else filename []) of
           Some e \<Rightarrow> (Some e, [])
         | None \<Rightarrow>
             (None, [Csv_to_file (or_else filename []) papers,
                     Stdout (Saved (length papers) (or_else filename []))]))
      else (None, [Csv_to_stdout papers]))"

definition handler :: "error \<Rightarrow> event list" where
  \<comment> \<open>the two \<open>except\<close> clauses of \<open>main\<close>\<close>
  "handler e =
     (case e of
        HTTPError m \<Rightarrow> [Stderr (HTTP_error m)]
      | ParseError m \<Rightarrow> [Stderr (Unexpected_error m)]
      | OtherError m \<Rightarrow> [Stderr (Unexpected_error m)])"

definition main :: "world \<Rightarrow> args \<Rightarrow> event list" where
  "main w a =
     (case esearch w (query a) (retmax a) (api_key a) (debug a) of
        (Inl e, out1) \<Rightarrow> out1 @ handler e
      | (Inr (pmids, total_count), out1) \<Rightarrow>
          if pmids = [] then out1 @ [Stderr No_papers_found]
          else
            (let out2 = (if debug a then [Stderr (Total_hits total_count pmids)] else [])
             in case efetch w pmids (api_key a) (debug a) of
                  (Inl e, out3) \<Rightarrow> out1 @ out2 @ out3 @ handler e
                | (Inr xml_data, out3) \<Rightarrow>
                    (case extract_papers (fromstring w) xml_data (debug a) of
                       (Inl e, out4) \<Rightarrow> out1 @ out2 @ out3 @ out4 @ handler e
                     | (Inr papers, out4) \<Rightarrow>
                         (case output_csv w papers (file_path a) of
                            (Some e, out5) \<Rightarrow> out1 @ out2 @ out3 @ out4 @ out5 @ handler e
                          | (None, out5) \<Rightarrow> out1 @ out2 @ out3 @ out4 @ out5))))"

section \<open>Notions of the specification\<close>

text \<open>
  The words of the specification that the claims use, as predicates. An email-shaped
  string is a non-empty local part, \<open>@\<close>, a non-empty domain, a dot and a last label of
  two or more letters; the classes are those of \<open>EMAIL_REGEX\<close>.
\<close>

definition email_shaped :: "pystr \<Rightarrow> bool" where
  "email_shaped m =
     (\<exists>l d t. m = l @ str ''@'' @ d @ str ''.'' @ t \<and> l \<noteq> [] \<and> list_all local_char l \<and>
        d \<noteq> [] \<and> list_all domain_char d \<and> 2 \<le> length t \<and> list_all alpha t)"

definition contains_email :: "pystr \<Rightarrow> bool" where
  "contains_email s = (\<exists>pre m post. s = pre @ m @ post \<and> email_shaped m)"

definition leftmost_email :: "pystr \<Rightarrow> pystr \<Rightarrow> bool" where
  \<comment> \<open>\<open>m\<close> is an email-shaped substring of \<open>s\<close>, none starts further left, and none that
      starts at the same place is longer\<close>
  "leftmost_email s m =
     (\<exists>pre post. s = pre @ m @ post \<and> email_shaped m \<and>
        (\<forall>pre' m' post'. s = pre' @ m' @ post' \<and> email_shaped m' \<longrightarrow>
           length pre \<le> length pre' \<and> (length pre' = length pre \<longrightarrow> length m' \<le> length m)))"

primrec matches :: "atom list \<Rightarrow> pystr \<Rightarrow> bool" where
  \<comment> \<open>the strings that a sequence of atoms describes\<close>
  "matches [] w = (w = [])"
| "matches (a # as) w =
     (\<exists>u v. w = u @ v \<and> least a \<le> length u \<and>
        (case most a of None \<Rightarrow> True | Some m \<Rightarrow> length u \<le> m) \<and>
        list_all (accepts a) u \<and> matches as v)"

definition tail_atoms :: "atom list" where
  \<comment> \<open>the end of \<open>EMAIL_REGEX\<close>: \<open>\.[A-Za-z]{2,}\<close>\<close>
  "tail_atoms = [Atom (\<lambda>c. c = of_char CHR ''.'') 1 (Some 1), Atom alpha 2 None]"

definition has_surrounding_whitespace :: "pystr \<Rightarrow> bool" where
  "has_surrounding_whitespace s = (s \<noteq> [] \<and> (isspace (hd s) \<or> isspace (last s)))"

definition is_ymd :: "pystr \<Rightarrow> bool" where
  \<comment> \<open>the numeric date format \<open>YYYY-MM-DD\<close>\<close>
  "is_ymd s =
     (case s of
        [y1, y2, y3, y4, h1, m1, m2, h2, d1, d2] \<Rightarrow>
          list_all digit [y1, y2, y3, y4, m1, m2, d1, d2] \<and>
          h1 = of_char CHR ''-'' \<and> h2 = of_char CHR ''-''
      | _ \<Rightarrow> False)"

text \<open>
  The date fields of a raw record: what the first \<open>PubDate\<close> element of the article holds
  under each name, \<open>None\<close> for a field that is absent. The publication date, as the
  specification words it, is a function of these fields.
\<close>

record date_fields =
  year :: "pystr option"
  month :: "pystr option"
  day :: "pystr option"
  medline :: "pystr option"

definition date_fields_of :: "element \<Rightarrow> date_fields" where
  "date_fields_of article =
     (case find_desc article (str ''PubDate'') of
        None \<Rightarrow> \<lparr>year = None, month = None, day = None, medline = None\<rparr>
      | Some n \<Rightarrow>
          \<lparr>year = findtext_child n (str ''Year''),
           month = findtext_child n (str ''Month''),
           day = findtext_child n (str ''Day''),
           medline = findtext_child n (str ''MedlineDate'')\<rparr>)"


definition is_report :: "event \<Rightarrow> bool" where
  \<comment> \<open>the events of the Report Writer\<close>
  "is_report ev = (case ev of Csv_to_file f ps \<Rightarrow> True | Csv_to_stdout ps \<Rightarrow> True | _ \<Rightarrow> False)"

definition papers_reported :: "event list \<Rightarrow> paper list" where
  \<comment> \<open>the papers handed to the Report Writer in a run\<close>
  "papers_reported evs =
     concat (map (\<lambda>ev. case ev of Csv_to_file f ps \<Rightarrow> ps | Csv_to_stdout ps \<Rightarrow> ps | _ \<Rightarrow> []) evs)"

definition is_failure :: "event \<Rightarrow> bool" where
  \<comment> \<open>the messages of the two exception handlers\<close>
  "is_failure ev =
     (case ev of
        Stderr (HTTP_error m) \<Rightarrow> True
      | Stderr (Unexpected_error m) \<Rightarrow> True
      | _ \<Rightarrow> False)"

section \<open>Example inputs\<close>

definition leaf :: "string \<Rightarrow> string \<Rightarrow> element" where
  \<comment> \<open>an element with text and no children\<close>
  "leaf t x = Element (str t) (Some (str x)) []"

definition node :: "string \<Rightarrow> element list \<Rightarrow> element" where
  \<comment> \<open>an element with children and no text\<close>
  "node t cs = Element (str t) None cs"

definition example_author_jane :: element where
  "example_author_jane =
     node ''Author''
       [leaf ''LastName'' ''Doe'', leaf ''ForeName'' ''Jane'',
        node ''AffiliationInfo''
          [leaf ''Affiliation'' ''  Acme Biotech Inc, contact: jane@acme.com '']]"

definition example_author_bob :: element where
  "example_author_bob =
     node ''Author''
       [leaf ''LastName'' ''Roe'', leaf ''ForeName'' ''Bob'',
        node ''AffiliationInfo''
          [leaf ''Affiliation'' ''Department of Physics, University of X'',
           node ''Affiliation'' []]]"

definition example_author_solo :: element where
  "example_author_solo = node ''Author'' [leaf ''LastName'' ''Solo'']"

definition example_article :: element where
  "example_article =
     node ''PubmedArticle''
       [leaf ''PMID'' ''31452104'',
        leaf ''ArticleTitle'' ''A trial'',
        node ''PubDate'' [leaf ''Year'' ''2020''],
        node ''AuthorList'' [example_author_jane, example_author_bob, example_author_solo]]"

definition example_article_month_name :: element where
  "example_article_month_name =
     node ''PubmedArticle''
       [node ''PubDate'' [leaf ''Year'' ''2020'', leaf ''Month'' ''Jan'']]"


definition example_world :: world where
  \<comment> \<open>a search that finds nothing, whatever the query\<close>
  "example_world =
     \<lparr>search_response = (\<lambda>ps. Inr ([], 0)),
      fetch_response = (\<lambda>ps. Inr []),
      fromstring = (\<lambda>s. Inl (ParseError (str ''no element found''))),
      open_file = (\<lambda>f. None)\<rparr>"

definition example_args :: args where
  "example_args =
     \<lparr>query = str ''zzzz'', debug = False, file_path = None, retmax = 10, api_key = None\<rparr>"

definition example_world_malformed :: world where
  \<comment> \<open>a search that finds one identifier, and a batch that the parser rejects\<close>
  "example_world_malformed =
     \<lparr>search_response = (\<lambda>ps. Inr ([str ''31452104''], 1)),
      fetch_response = (\<lambda>ps. Inr (str ''<PubmedArticleSet>'')),
      fromstring = (\<lambda>s. Inl (ParseError (str ''no element found''))),
      open_file = (\<lambda>f. None)\<rparr>"

definition example_world_no_articles :: world where
  \<comment> \<open>a search that finds one identifier, and a well-formed batch without any
      \<open>PubmedArticle\<close> element\<close>
  "example_world_no_articles =
     \<lparr>search_response = (\<lambda>ps. Inr ([str ''31452104''], 1)),
      fetch_response = (\<lambda>ps. Inr (str ''<eFetchResult><ERROR>x</ERROR></eFetchResult>'')),
      fromstring = (\<lambda>s. Inr (node ''eFetchResult'' [leaf ''ERROR'' ''x''])),
      open_file = (\<lambda>f. None)\<rparr>"

section \<open>Properties of the keyword classifier\<close>

lemma is_in_iff: "is_in k s \<longleftrightarrow> (\<exists>pre post. s = pre @ k @ post)"
proof (induction s)
  case Nil
  then show ?case by simp
next
  case (Cons c cs)
  have "sublist k (c # cs) \<longleftrightarrow> prefix k (c # cs) \<or> sublist k cs"
    by (rule sublist_Cons_right)
  then show ?case using Cons by (simp add: sublist_def)
qed

lemma contains_keyword_iff:
  "contains_keyword text keywords \<longleftrightarrow>
     (\<exists>k\<in>set keywords. \<exists>pre post. lower text = pre @ lower k @ post)"
  by (simp add: contains_keyword_def list_ex_iff is_in_iff)

lemma lower_from_ascii:
  "\<forall>c\<in>set s. c < 128 \<Longrightarrow>
   lower_from seen s = map (\<lambda>c. if 65 \<le> c \<and> c \<le> 90 then c + 32 else c) s"
  by (induction s arbitrary: seen) (simp_all add: to_lower_full_def)

lemma lower_ascii:
  "\<forall>c\<in>set s. c < 128 \<Longrightarrow>
   lower s = map (\<lambda>c. if 65 \<le> c \<and> c \<le> 90 then c + 32 else c) s"
  by (simp add: lower_def lower_from_ascii)

lemma upper_ascii:
  "\<forall>c\<in>set s. c < 128 \<Longrightarrow>
   upper s = map (\<lambda>c. if 97 \<le> c \<and> c \<le> 122 then c - 32 else c) s"
  by (induction s) (simp_all add: upper_def to_upper_full_def)

lemma lower_upper_ascii:
  assumes "\<forall>c\<in>set s. c < 128"
  shows "lower (upper s) = lower s"
proof -
  have u: "upper s = map (\<lambda>c. if 97 \<le> c \<and> c \<le> 122 then c - 32 else c) s"
    using assms by (rule upper_ascii)
  have "\<forall>c\<in>set (upper s). c < 128"
    using assms by (auto simp: u)
  then have "lower (upper s) = map (\<lambda>c. if 65 \<le> c \<and> c \<le> 90 then c + 32 else c) (upper s)"
    by (rule lower_ascii)
  also have "\<dots> = map (\<lambda>c. if 65 \<le> c \<and> c \<le> 90 then c + 32 else c) s"
    unfolding u by (induction s) auto
  finally show ?thesis using assms by (simp add: lower_ascii)
qed

text \<open>
  Claim C7, as stated: \<open>contains_keyword\<close> against the academic keywords gives the same
  answer for every text and for its upper-cased form. It fails on text outside ASCII:
  the word \<open>university\<close> written with the dotless i (U+0131) in third place is left as it is by \<open>lower()\<close> and
  names no keyword, while \<open>upper()\<close> makes it \<open>"UNIVERSITY"\<close>, which does.
\<close>

theorem contains_keyword_upper_counterexample:
  "\<not> contains_keyword [117, 110, 305, 118, 101, 114, 115, 105, 116, 121] ACADEMIC_KEYWORDS \<and>
   contains_keyword (upper [117, 110, 305, 118, 101, 114, 115, 105, 116, 121]) ACADEMIC_KEYWORDS"
proof -
  have l: "lower [117, 110, 305, 118, 101, 114, 115, 105, 116, 121]
             = [117, 110, 305, 118, 101, 114, 115, 105, 116, 121]"
    by (simp add: lower_def to_lower_full_def lower_special_def lower_ranges_def)
  have u: "upper [117, 110, 305, 118, 101, 114, 115, 105, 116, 121]
             = [85, 78, 73, 86, 69, 82, 83, 73, 84, 89]"
    by (simp add: upper_def to_upper_full_def upper_special_def upper_ranges_def)
  have "\<not> contains_keyword [117, 110, 305, 118, 101, 114, 115, 105, 116, 121] ACADEMIC_KEYWORDS"
    unfolding contains_keyword_def l
    by (simp add: ACADEMIC_KEYWORDS_def str_def lower_def to_lower_full_def)
  moreover have "contains_keyword [85, 78, 73, 86, 69, 82, 83, 73, 84, 89] ACADEMIC_KEYWORDS"
    by (simp add: contains_keyword_def ACADEMIC_KEYWORDS_def str_def lower_def to_lower_full_def)
  ultimately show ?thesis by (simp add: u)
qed

text \<open>
  Claim C7, amended: for every text made of ASCII code points only, \<open>contains_keyword\<close>
  against the academic keywords gives the same answer for the text and for its
  upper-cased form.
\<close>

theorem contains_keyword_upper_ascii:
  "\<forall>c\<in>set T. c < 128 \<Longrightarrow>
   contains_keyword T ACADEMIC_KEYWORDS = contains_keyword (upper T) ACADEMIC_KEYWORDS"
  by (simp add: contains_keyword_def lower_upper_ascii)

theorem contains_keyword_upper_ascii_witness:
  "list_all (\<lambda>c. c < 128) (str ''Mercy Hospital'') \<and>
   contains_keyword (str ''Mercy Hospital'') ACADEMIC_KEYWORDS \<and>
   contains_keyword (upper (str ''Mercy Hospital'')) ACADEMIC_KEYWORDS"
proof -
  have a: "\<forall>c\<in>set (str ''Mercy Hospital''). c < 128"
    by (simp add: str_def)
  have b: "contains_keyword (str ''Mercy Hospital'') ACADEMIC_KEYWORDS"
    by (simp add: contains_keyword_def ACADEMIC_KEYWORDS_def str_def lower_def to_lower_full_def)
  show ?thesis using a b contains_keyword_upper_ascii [OF a] by (simp add: list_all_iff)
qed

section \<open>Properties of the matcher\<close>

lemma backtrack_sound:
  "backtrack k s lo n = Some e \<Longrightarrow>
   \<exists>m e'. lo \<le> m \<and> m \<le> n \<and> k (drop m s) = Some e' \<and> e = m + e'"
proof (induction n)
  case 0
  then show ?case by (auto split: if_splits)
next
  case (Suc n)
  show ?case
  proof (cases "k (drop (Suc n) s)")
    case None
    with Suc.prems have "backtrack k s lo n = Some e"
      by (auto split: if_splits)
    from Suc.IH[OF this] obtain m e' where
      "lo \<le> m" "m \<le> n" "k (drop m s) = Some e'" "e = m + e'" by blast
    then have "lo \<le> m \<and> m \<le> Suc n \<and> k (drop m s) = Some e' \<and> e = m + e'" by simp
    then show ?thesis by blast
  next
    case (Some e')
    with Suc.prems have "\<not> Suc n < lo" "e = Suc n + e'"
      by (auto split: if_splits)
    then have "lo \<le> Suc n \<and> Suc n \<le> Suc n \<and> k (drop (Suc n) s) = Some e' \<and> e = Suc n + e'"
      using Some by simp
    then show ?thesis by blast
  qed
qed

lemma backtrack_complete:
  "lo \<le> m \<Longrightarrow> m \<le> n \<Longrightarrow> k (drop m s) = Some e' \<Longrightarrow> \<exists>e. backtrack k s lo n = Some e"
proof (induction n)
  case 0
  then show ?case by simp
next
  case (Suc n)
  show ?case
  proof (cases "m = Suc n")
    case True
    with Suc.prems show ?thesis by simp
  next
    case False
    with Suc.prems have "m \<le> n" by simp
    from Suc.IH[OF Suc.prems(1) this Suc.prems(3)] obtain e where "backtrack k s lo n = Some e" ..
    moreover have "\<not> Suc n < lo" using Suc.prems by simp
    ultimately show ?thesis by (cases "k (drop (Suc n) s)") simp_all
  qed
qed

lemma greedy_le_run: "greedy a s \<le> length (takeWhile (accepts a) s)"
  by (simp add: greedy_def Let_def split: option.splits)

lemma greedy_le_most: "most a = Some h \<Longrightarrow> greedy a s \<le> h"
  by (simp add: greedy_def Let_def)

lemma take_run_accepted:
  "m \<le> length (takeWhile P s) \<Longrightarrow> list_all P (take m s) \<and> length (take m s) = m"
proof -
  assume m: "m \<le> length (takeWhile P s)"
  have "length (takeWhile P s) \<le> length s" by (rule length_takeWhile_le)
  with m have len: "m \<le> length s" by simp
  have "take m s = take m (takeWhile P s)"
    using m by (metis takeWhile_dropWhile_id take_append diff_is_0_eq take_0 append_Nil2)
  moreover have "list_all P (takeWhile P s)"
    by (simp add: list_all_iff) (meson set_takeWhileD)
  ultimately have "list_all P (take m s)"
    by (metis list_all_iff in_set_takeD)
  with len show ?thesis by simp
qed

lemma match_here_sound:
  "match_here r s = Some e \<Longrightarrow> e \<le> length s \<and> matches r (take e s)"
proof (induction r arbitrary: s e)
  case Nil
  then show ?case by simp
next
  case (Cons a r)
  from Cons.prems have "backtrack (match_here r) s (least a) (greedy a s) = Some e" by simp
  from backtrack_sound[OF this] obtain m e' where
    m: "least a \<le> m" "m \<le> greedy a s" and
    k: "match_here r (drop m s) = Some e'" and e: "e = m + e'" by blast
  from Cons.IH[OF k] have ih: "e' \<le> length (drop m s)" "matches r (take e' (drop m s))" by simp_all
  have run: "m \<le> length (takeWhile (accepts a) s)" using m(2) greedy_le_run le_trans by blast
  from take_run_accepted[OF run] have acc: "list_all (accepts a) (take m s)" "length (take m s) = m"
    by simp_all
  have mlen: "m \<le> length s" using acc(2) by (metis length_take min.cobounded1)
  have split: "take e s = take m s @ take e' (drop m s)"
    unfolding e by (simp add: take_add)
  have hi: "case most a of None \<Rightarrow> True | Some h \<Rightarrow> length (take m s) \<le> h"
  proof (cases "most a")
    case None
    then show ?thesis by simp
  next
    case (Some h)
    from greedy_le_most[OF this] m(2) have "m \<le> h" using le_trans by blast
    with Some acc(2) show ?thesis by simp
  qed
  have "matches (a # r) (take e s)"
    unfolding matches.simps
    apply (rule exI[of _ "take m s"], rule exI[of _ "take e' (drop m s)"])
    using split m(1) acc hi ih(2) by simp
  moreover have "e \<le> length s" using ih(1) mlen e by simp
  ultimately show ?case by simp
qed

lemma match_here_complete:
  "matches r w \<Longrightarrow> \<exists>e. match_here r (w @ rest) = Some e"
proof (induction r arbitrary: w)
  case Nil
  then show ?case by simp
next
  case (Cons a r)
  from Cons.prems obtain u v where
    w: "w = u @ v" and lo: "least a \<le> length u" and
    hi: "case most a of None \<Rightarrow> True | Some h \<Rightarrow> length u \<le> h" and
    acc: "list_all (accepts a) u" and v: "matches r v" by auto
  from Cons.IH[OF v] obtain e' where e': "match_here r (v @ rest) = Some e'" by blast
  have "takeWhile (accepts a) (u @ v @ rest) = u @ takeWhile (accepts a) (v @ rest)"
    using acc by (simp add: list_all_iff)
  then have "length u \<le> length (takeWhile (accepts a) (w @ rest))"
    by (simp add: w)
  with hi have g: "length u \<le> greedy a (w @ rest)"
    by (simp add: greedy_def Let_def split: option.splits)
  have d: "match_here r (drop (length u) (w @ rest)) = Some e'"
    using e' by (simp add: w)
  have "\<exists>e. backtrack (match_here r) (w @ rest) (least a) (greedy a (w @ rest)) = Some e"
    using lo g d by (rule backtrack_complete)
  then show ?case by simp
qed

lemma search_Some:
  "search r s = Some m \<Longrightarrow>
   \<exists>pre post. s = pre @ m @ post \<and> match_here r (m @ post) = Some (length m) \<and> matches r m \<and>
      (\<forall>k<length pre. match_here r (drop k s) = None)"
proof (induction s)
  case Nil
  then obtain e where e: "match_here r [] = Some e" and m: "m = []"
    by (auto split: option.splits)
  from match_here_sound[OF e] have "matches r []" "e = 0" by simp_all
  with m e have "[] = [] @ m @ [] \<and> match_here r (m @ []) = Some (length m) \<and> matches r m \<and>
      (\<forall>k<length ([]::pystr). match_here r (drop k []) = None)" by simp
  then show ?case by blast
next
  case (Cons c cs)
  show ?case
  proof (cases "match_here r (c # cs)")
    case (Some e)
    with Cons.prems have m: "m = take e (c # cs)" by simp
    from match_here_sound[OF Some] have sound: "e \<le> length (c # cs)" "matches r m"
      using m by simp_all
    have len: "length m = e" using sound(1) m by simp
    have "c # cs = [] @ m @ drop e (c # cs) \<and>
        match_here r (m @ drop e (c # cs)) = Some (length m) \<and> matches r m \<and>
        (\<forall>k<length ([]::pystr). match_here r (drop k (c # cs)) = None)"
      using m Some len sound(2) by simp
    then show ?thesis by blast
  next
    case None
    with Cons.prems have "search r cs = Some m" by simp
    from Cons.IH[OF this] obtain pre post where
      p: "cs = pre @ m @ post" "match_here r (m @ post) = Some (length m)" "matches r m"
        "\<forall>k<length pre. match_here r (drop k cs) = None"
      by blast
    have "\<forall>k<length (c # pre). match_here r (drop k (c # cs)) = None"
    proof (intro allI impI)
      fix k assume "k < length (c # pre)"
      then show "match_here r (drop k (c # cs)) = None"
        using None p(4) by (cases k) simp_all
    qed
    moreover have "c # cs = (c # pre) @ m @ post" using p(1) by simp
    ultimately show ?thesis using p(2,3) by blast
  qed
qed

lemma search_None:
  "search r s = None \<Longrightarrow> k \<le> length s \<Longrightarrow> match_here r (drop k s) = None"
proof (induction s arbitrary: k)
  case Nil
  then show ?case by (auto split: option.splits)
next
  case (Cons c cs)
  from Cons.prems(1) have n: "match_here r (c # cs) = None" and s: "search r cs = None"
    by (auto split: option.splits)
  show ?case
  proof (cases k)
    case 0
    with n show ?thesis by simp
  next
    case (Suc j)
    with Cons.prems(2) have "j \<le> length cs" by simp
    from Cons.IH[OF s this] show ?thesis using Suc by simp
  qed
qed

lemma substring_match_here:
  "s = pre @ m @ post \<Longrightarrow> matches r m \<Longrightarrow> \<exists>e. match_here r (drop (length pre) s) = Some e"
  using match_here_complete by simp

lemma search_None_iff:
  "search r s = None \<longleftrightarrow> \<not> (\<exists>pre m post. s = pre @ m @ post \<and> matches r m)"
proof
  assume n: "search r s = None"
  show "\<not> (\<exists>pre m post. s = pre @ m @ post \<and> matches r m)"
  proof
    assume "\<exists>pre m post. s = pre @ m @ post \<and> matches r m"
    then obtain pre m post where p: "s = pre @ m @ post" "matches r m" by blast
    from substring_match_here[OF p] obtain e where "match_here r (drop (length pre) s) = Some e" ..
    moreover have "length pre \<le> length s" using p(1) by simp
    ultimately show False using search_None[OF n] by fastforce
  qed
next
  assume a: "\<not> (\<exists>pre m post. s = pre @ m @ post \<and> matches r m)"
  show "search r s = None"
  proof (rule ccontr)
    assume "search r s \<noteq> None"
    then obtain m where "search r s = Some m" by blast
    from search_Some[OF this] a show False by blast
  qed
qed

section \<open>Properties of the extraction\<close>

lemma classify_affs_filter:
  "classify_affs affs acc = acc @ filter (\<lambda>aff. contains_keyword aff COMPANY_KEYWORDS) affs"
  by (induction affs arbitrary: acc) simp_all

lemma classify_closed_form:
  "classify as (n, c) =
     (n @ map name (filter (\<lambda>a. \<not> list_ex (\<lambda>aff. contains_keyword aff ACADEMIC_KEYWORDS) (affiliations a)
                               \<and> name a \<noteq> []) as),
      c @ filter (\<lambda>aff. contains_keyword aff COMPANY_KEYWORDS) (concat (map affiliations as)))"
  by (induction as arbitrary: n c) (simp_all add: classify_affs_filter Let_def)

lemma set_sorted_set: "set (sorted_set xs) = set xs"
  by (simp add: sorted_set_def)

lemma join_sorted_set_Nil: "join sep (sorted_set []) = []"
  by (simp add: sorted_set_def)

lemma Non_academic_Authors_field:
  "Non_academic_Authors (extract_record article)
     = join (str ''; '') (sorted_set (non_academic_authors article))"
  by (simp add: extract_record_def Let_def join_sorted_set_Nil)

lemma Company_Affiliations_field:
  "Company_Affiliations (extract_record article)
     = join (str ''; '') (sorted_set (company_affiliations article))"
  by (simp add: extract_record_def Let_def)

lemma Corresponding_Author_Email_field:
  "Corresponding_Author_Email (extract_record article) = scan_authors (authors_info article)"
  by (simp add: extract_record_def Let_def)

subsection \<open>The email pattern and the scan\<close>

lemma singleton_atom:
  "1 \<le> length u \<Longrightarrow> length u \<le> 1 \<Longrightarrow> list_all (\<lambda>c. c = x) u \<Longrightarrow> u = [x]"
  by (cases u) auto

lemma matches_EMAIL_REGEX: "matches EMAIL_REGEX m \<longleftrightarrow> email_shaped m"
proof
  assume "matches EMAIL_REGEX m"
  then obtain l a d p t where
    m: "m = l @ a @ d @ p @ t" and
    l: "1 \<le> length l" "list_all local_char l" and
    a: "1 \<le> length a" "length a \<le> 1" "list_all (\<lambda>c. c = of_char CHR ''@'') a" and
    d: "1 \<le> length d" "list_all domain_char d" and
    p: "1 \<le> length p" "length p \<le> 1" "list_all (\<lambda>c. c = of_char CHR ''.'') p" and
    t: "2 \<le> length t" "list_all alpha t"
    unfolding EMAIL_REGEX_def by auto
  from singleton_atom[OF a] have a': "a = str ''@''" by (simp add: str_def)
  from singleton_atom[OF p] have p': "p = str ''.''" by (simp add: str_def)
  have "l \<noteq> []" "d \<noteq> []" using l(1) d(1) by auto
  with m a' p' l(2) d(2) t show "email_shaped m"
    unfolding email_shaped_def by blast
next
  assume "email_shaped m"
  then obtain l d t where
    m: "m = l @ str ''@'' @ d @ str ''.'' @ t" and
    l: "l \<noteq> []" "list_all local_char l" and
    d: "d \<noteq> []" "list_all domain_char d" and
    t: "2 \<le> length t" "list_all alpha t"
    unfolding email_shaped_def by blast
  have l1: "1 \<le> length l" using l(1) by (cases l) simp_all
  have d1: "1 \<le> length d" using d(1) by (cases d) simp_all
  have mt: "matches [Atom alpha 2 None] t" using t by simp
  have mp: "matches [Atom (\<lambda>c. c = of_char CHR ''.'') 1 (Some 1), Atom alpha 2 None] (str ''.'' @ t)"
    unfolding matches.simps(2)[of "Atom (\<lambda>c. c = of_char CHR ''.'') 1 (Some 1)"]
    apply (rule exI[of _ "str ''.''"], rule exI[of _ t])
    using mt by (simp add: str_def)
  have md: "matches [Atom domain_char 1 None, Atom (\<lambda>c. c = of_char CHR ''.'') 1 (Some 1),
               Atom alpha 2 None] (d @ str ''.'' @ t)"
    unfolding matches.simps(2)[of "Atom domain_char 1 None"]
    apply (rule exI[of _ d], rule exI[of _ "str ''.'' @ t"])
    using mp d d1 by simp
  have ma: "matches [Atom (\<lambda>c. c = of_char CHR ''@'') 1 (Some 1), Atom domain_char 1 None,
               Atom (\<lambda>c. c = of_char CHR ''.'') 1 (Some 1), Atom alpha 2 None]
               (str ''@'' @ d @ str ''.'' @ t)"
    unfolding matches.simps(2)[of "Atom (\<lambda>c. c = of_char CHR ''@'') 1 (Some 1)"]
    apply (rule exI[of _ "str ''@''"], rule exI[of _ "d @ str ''.'' @ t"])
    using md by (simp add: str_def)
  show "matches EMAIL_REGEX m"
    unfolding EMAIL_REGEX_def m matches.simps(2)[of "Atom local_char 1 None"]
    apply (rule exI[of _ l], rule exI[of _ "str ''@'' @ d @ str ''.'' @ t"])
    using ma l l1 by simp
qed

lemma email_shaped_nonempty: "email_shaped m \<Longrightarrow> m \<noteq> []"
  by (auto simp: email_shaped_def)

lemma search_email_None: "search EMAIL_REGEX s = None \<longleftrightarrow> \<not> contains_email s"
  by (simp add: search_None_iff matches_EMAIL_REGEX contains_email_def)

lemma backtrack_max:
  "backtrack k s lo n = Some e \<Longrightarrow>
   \<exists>m e'. lo \<le> m \<and> m \<le> n \<and> k (drop m s) = Some e' \<and> e = m + e' \<and>
      (\<forall>m'. m < m' \<and> m' \<le> n \<longrightarrow> k (drop m' s) = None)"
proof (induction n)
  case 0
  then show ?case by (auto split: if_splits)
next
  case (Suc n)
  show ?case
  proof (cases "k (drop (Suc n) s)")
    case None
    with Suc.prems have "backtrack k s lo n = Some e"
      by (auto split: if_splits)
    from Suc.IH[OF this] obtain m e' where
      m: "lo \<le> m" "m \<le> n" "k (drop m s) = Some e'" "e = m + e'"
        "\<forall>m'. m < m' \<and> m' \<le> n \<longrightarrow> k (drop m' s) = None" by blast
    have "\<forall>m'. m < m' \<and> m' \<le> Suc n \<longrightarrow> k (drop m' s) = None"
      using m(5) None by (metis le_Suc_eq)
    with m(1-4) have "lo \<le> m \<and> m \<le> Suc n \<and> k (drop m s) = Some e' \<and> e = m + e' \<and>
      (\<forall>m'. m < m' \<and> m' \<le> Suc n \<longrightarrow> k (drop m' s) = None)" by simp
    then show ?thesis by blast
  next
    case (Some e')
    with Suc.prems have "\<not> Suc n < lo" "e = Suc n + e'"
      by (auto split: if_splits)
    moreover have "\<forall>m'. Suc n < m' \<and> m' \<le> Suc n \<longrightarrow> k (drop m' s) = None"
      by auto
    ultimately have "lo \<le> Suc n \<and> Suc n \<le> Suc n \<and> k (drop (Suc n) s) = Some e' \<and> e = Suc n + e' \<and>
      (\<forall>m'. Suc n < m' \<and> m' \<le> Suc n \<longrightarrow> k (drop m' s) = None)"
      using Some by (metis le_refl not_less)
    then show ?thesis by blast
  qed
qed

lemma backtrack_const: "backtrack (\<lambda>x. Some 0) s lo n = (if lo \<le> n then Some n else None)"
  by (cases n) auto

lemma match_here_Nil: "match_here [] = (\<lambda>x. Some 0)"
  by (rule ext) simp

lemma match_here_last_atom:
  "match_here [Atom P lo None] y =
     (if lo \<le> length (takeWhile P y) then Some (length (takeWhile P y)) else None)"
  by (simp add: greedy_def backtrack_const match_here_Nil)

lemma match_here_single:
  "match_here (Atom (\<lambda>c. c = x) 1 (Some 1) # r) y =
     (case y of [] \<Rightarrow> None | c # cs \<Rightarrow> if c = x then map_option Suc (match_here r cs) else None)"
proof (cases y)
  case Nil
  then show ?thesis by (simp add: greedy_def)
next
  case (Cons c cs)
  show ?thesis
  proof (cases "c = x")
    case True
    then have "greedy (Atom (\<lambda>c. c = x) 1 (Some 1)) y = Suc 0"
      by (simp add: greedy_def Cons)
    then show ?thesis using True Cons
      by (cases "match_here r cs") simp_all
  next
    case False
    then have "greedy (Atom (\<lambda>c. c = x) 1 (Some 1)) y = 0"
      by (simp add: greedy_def Cons)
    then show ?thesis using False Cons by simp
  qed
qed

lemma takeWhile_all_then_not:
  "list_all P l \<Longrightarrow> \<not> P c \<Longrightarrow> takeWhile P (l @ c # rest) = l"
  by (induction l) simp_all

lemma length_takeWhile_prefix:
  "list_all P l \<Longrightarrow> length l \<le> length (takeWhile P (l @ rest))"
  by (induction l) simp_all

lemma not_local_at: "\<not> local_char (of_char CHR ''@'')"
  by (simp add: local_char_def alpha_def digit_def str_def)

lemma not_alpha_dot: "\<not> alpha (of_char CHR ''.'')"
  by (simp add: alpha_def)

lemma tail_atoms_Some:
  "match_here tail_atoms x = Some e \<Longrightarrow> \<exists>cs. x = of_char CHR ''.'' # cs"
  unfolding tail_atoms_def match_here_single
  by (cases x) (auto split: if_splits)

lemma tail_atoms_dot:
  "list_all alpha t \<Longrightarrow> 2 \<le> length t \<Longrightarrow>
   \<exists>run. match_here tail_atoms (of_char CHR ''.'' # t @ post) = Some (Suc run) \<and> length t \<le> run"
proof -
  assume t: "list_all alpha t" "2 \<le> length t"
  from length_takeWhile_prefix[OF t(1)] have le: "length t \<le> length (takeWhile alpha (t @ post))" .
  have la: "match_here [Atom alpha 2 None] (t @ post) = Some (length (takeWhile alpha (t @ post)))"
    using match_here_last_atom [of alpha 2 "t @ post"] le t(2) by simp
  have "match_here tail_atoms (of_char CHR ''.'' # t @ post)
          = Some (Suc (length (takeWhile alpha (t @ post))))"
    unfolding tail_atoms_def match_here_single by (simp add: la del: match_here.simps)
  with le show ?thesis by blast
qed

lemma domain_longest:
  assumes r: "match_here (Atom domain_char 1 None # tail_atoms) (d @ of_char CHR ''.'' # t @ post) = Some e"
    and d: "list_all domain_char d" and t: "list_all alpha t" "2 \<le> length t"
  shows "length d + 1 + length t \<le> e"
proof -
  let ?x = "d @ of_char CHR ''.'' # t @ post"
  let ?a = "Atom domain_char 1 None"
  from r have "backtrack (match_here tail_atoms) ?x 1 (greedy ?a ?x) = Some e" by simp
  from backtrack_max[OF this] obtain m e' where
    m: "1 \<le> m" "m \<le> greedy ?a ?x" "match_here tail_atoms (drop m ?x) = Some e'" "e = m + e'"
      and mx: "\<forall>m'. m < m' \<and> m' \<le> greedy ?a ?x \<longrightarrow> match_here tail_atoms (drop m' ?x) = None"
    by blast
  have g: "length d \<le> greedy ?a ?x"
    using length_takeWhile_prefix[OF d] by (simp add: greedy_def)
  from tail_atoms_dot[OF t] obtain run where
    run: "match_here tail_atoms (of_char CHR ''.'' # t @ post) = Some (Suc run)" "length t \<le> run"
    by blast
  have cand: "match_here tail_atoms (drop (length d) ?x) = Some (Suc run)"
    using run(1) by simp
  have dm: "length d \<le> m"
  proof (rule ccontr)
    assume "\<not> length d \<le> m"
    then have "m < length d \<and> length d \<le> greedy ?a ?x" using g by simp
    with mx have "match_here tail_atoms (drop (length d) ?x) = None" by blast
    with cand show False by simp
  qed
  show ?thesis
  proof (cases "m = length d")
    case True
    with m(3) cand have "e' = Suc run" by simp
    with m(4) True run(2) show ?thesis by simp
  next
    case False
    with dm have lt: "length d < m" by simp
    from tail_atoms_Some[OF m(3)] obtain cs where cs: "drop m ?x = of_char CHR ''.'' # cs" by blast
    have "length d + length t < m"
    proof (rule ccontr)
      assume "\<not> length d + length t < m"
      with lt have in_t: "m - length d - 1 < length t" by arith
      from lt have dr: "drop m ?x = drop (m - length d - 1) (t @ post)"
        by (simp add: drop_Cons' )
      from in_t have "drop (m - length d - 1) (t @ post) = (t ! (m - length d - 1)) # drop (Suc (m - length d - 1)) (t @ post)"
        by (metis Cons_nth_drop_Suc length_append nth_append trans_less_add1)
      with dr cs have "t ! (m - length d - 1) = of_char CHR ''.''" by simp
      moreover have "alpha (t ! (m - length d - 1))"
        using t(1) in_t by (simp add: list_all_length)
      ultimately show False using not_alpha_dot by simp
    qed
    with m(4) show ?thesis by simp
  qed
qed

lemma EMAIL_REGEX_tail:
  "EMAIL_REGEX = Atom local_char 1 None # Atom (\<lambda>c. c = of_char CHR ''@'') 1 (Some 1)
      # Atom domain_char 1 None # tail_atoms"
  by (simp add: EMAIL_REGEX_def tail_atoms_def)

lemma match_here_email_longest:
  assumes r: "match_here EMAIL_REGEX (w @ post) = Some e" and w: "email_shaped w"
  shows "length w \<le> e"
proof -
  from w obtain l d t where
    wd: "w = l @ str ''@'' @ d @ str ''.'' @ t" and
    l: "l \<noteq> []" "list_all local_char l" and
    d: "d \<noteq> []" "list_all domain_char d" and
    t: "2 \<le> length t" "list_all alpha t"
    unfolding email_shaped_def by blast
  let ?at = "of_char CHR ''@'' :: nat"
  let ?y = "d @ of_char CHR ''.'' # t @ post"
  let ?s = "l @ ?at # ?y"
  let ?k = "match_here (Atom (\<lambda>c. c = ?at) 1 (Some 1) # Atom domain_char 1 None # tail_atoms)"
  have s: "w @ post = ?s" by (simp add: wd str_def)
  have run: "takeWhile local_char ?s = l"
    using l(2) not_local_at by (rule takeWhile_all_then_not)
  then have g: "greedy (Atom local_char 1 None) ?s = length l"
    by (simp add: greedy_def)
  from r have "backtrack ?k ?s 1 (length l) = Some e"
    unfolding s EMAIL_REGEX_tail using g by simp
  from backtrack_sound[OF this] obtain m e' where
    m: "1 \<le> m" "m \<le> length l" "?k (drop m ?s) = Some e'" "e = m + e'" by blast
  have "m = length l"
  proof (rule ccontr)
    assume "m \<noteq> length l"
    with m(2) have lt: "m < length l" by simp
    then have "drop m ?s = (l ! m) # drop (Suc m) ?s"
      by (metis Cons_nth_drop_Suc length_append nth_append trans_less_add1)
    moreover have "local_char (l ! m)" using l(2) lt by (simp add: list_all_length)
    then have "l ! m \<noteq> ?at" using not_local_at by auto
    then have "?k ((l ! m) # drop (Suc m) ?s) = None"
      unfolding match_here_single by simp
    ultimately have "?k (drop m ?s) = None"
      by simp
    with m(3) show False by simp
  qed
  with m(3) have "?k (?at # ?y) = Some e'" by simp
  then obtain e2 where e2: "match_here (Atom domain_char 1 None # tail_atoms) ?y = Some e2" "e' = Suc e2"
    unfolding match_here_single by auto
  from domain_longest[OF e2(1) d(2) t(2) t(1)] have "length d + 1 + length t \<le> e2" .
  with \<open>m = length l\<close> m(4) e2(2) show ?thesis
    by (simp add: wd str_def)
qed

lemma search_email_Some:
  assumes "search EMAIL_REGEX s = Some m"
  shows "leftmost_email s m \<and> m \<noteq> []"
proof -
  from search_Some[OF assms] obtain pre post where
    p: "s = pre @ m @ post" "match_here EMAIL_REGEX (m @ post) = Some (length m)"
      "matches EMAIL_REGEX m" "\<forall>k<length pre. match_here EMAIL_REGEX (drop k s) = None"
    by blast
  have shaped: "email_shaped m" using p(3) by (simp add: matches_EMAIL_REGEX)
  have "\<forall>pre' m' post'. s = pre' @ m' @ post' \<and> email_shaped m' \<longrightarrow>
          length pre \<le> length pre' \<and> (length pre' = length pre \<longrightarrow> length m' \<le> length m)"
  proof (intro allI impI)
    fix pre' m' post'
    assume q: "s = pre' @ m' @ post' \<and> email_shaped m'"
    then have "matches EMAIL_REGEX m'" by (simp add: matches_EMAIL_REGEX)
    with q obtain e where "match_here EMAIL_REGEX (drop (length pre') s) = Some e"
      using substring_match_here by blast
    with p(4) have left: "length pre \<le> length pre'"
      by (metis not_le_imp_less option.distinct(1))
    have "length m' \<le> length m" if eq: "length pre' = length pre"
    proof -
      from q p(1) eq have "m' @ post' = m @ post" by (metis append_eq_append_conv)
      with p(2) have "match_here EMAIL_REGEX (m' @ post') = Some (length m)" by simp
      with q show ?thesis using match_here_email_longest by blast
    qed
    with left show "length pre \<le> length pre' \<and> (length pre' = length pre \<longrightarrow> length m' \<le> length m)"
      by blast
  qed
  with p(1) shaped have "leftmost_email s m"
    unfolding leftmost_email_def by blast
  with shaped email_shaped_nonempty show ?thesis by blast
qed

lemma scan_affs_append:
  "scan_affs (xs @ ys) = (if scan_affs xs \<noteq> [] then scan_affs xs else scan_affs ys)"
proof (induction xs)
  case Nil
  then show ?case by simp
next
  case (Cons x xs)
  show ?case
  proof (cases "search EMAIL_REGEX x")
    case None
    with Cons show ?thesis by simp
  next
    case (Some m)
    with search_email_Some[OF Some] show ?thesis by simp
  qed
qed

lemma scan_authors_concat:
  "scan_authors as = scan_affs (concat (map affiliations as))"
  by (induction as) (simp_all add: scan_affs_append Let_def)

lemma scan_affs_none:
  "\<forall>aff\<in>set affs. \<not> contains_email aff \<Longrightarrow> scan_affs affs = []"
  by (induction affs) (simp_all add: search_email_None[symmetric])

lemma scan_affs_first:
  "i < length affs \<Longrightarrow> contains_email (affs ! i) \<Longrightarrow> \<forall>j<i. \<not> contains_email (affs ! j) \<Longrightarrow>
   leftmost_email (affs ! i) (scan_affs affs)"
proof (induction affs arbitrary: i)
  case Nil
  then show ?case by simp
next
  case (Cons x xs)
  show ?case
  proof (cases i)
    case 0
    with Cons.prems(2) have "search EMAIL_REGEX x \<noteq> None"
      by (simp add: search_email_None)
    then obtain m where m: "search EMAIL_REGEX x = Some m" by blast
    from search_email_Some[OF m] show ?thesis using 0 m by simp
  next
    case (Suc k)
    with Cons.prems(3) have "\<not> contains_email x" by fastforce
    then have n: "search EMAIL_REGEX x = None" by (simp add: search_email_None)
    have "leftmost_email (xs ! k) (scan_affs xs)"
    proof (rule Cons.IH)
      show "k < length xs" using Cons.prems(1) Suc by simp
      show "contains_email (xs ! k)" using Cons.prems(2) Suc by simp
      show "\<forall>j<k. \<not> contains_email (xs ! j)"
        using Cons.prems(3) Suc by (metis Suc_less_eq nth_Cons_Suc)
    qed
    then show ?thesis using n Suc by simp
  qed
qed

subsection \<open>Stripping\<close>

lemma last_dropWhile: "dropWhile P xs \<noteq> [] \<Longrightarrow> last (dropWhile P xs) = last xs"
  by (induction xs) (auto split: if_splits)

lemma strip_no_surrounding_whitespace: "\<not> has_surrounding_whitespace (strip s)"
proof (cases "strip s = []")
  case True
  then show ?thesis by (simp add: has_surrounding_whitespace_def)
next
  case False
  define zs where "zs = dropWhile isspace s"
  define ys where "ys = dropWhile isspace (rev zs)"
  have s: "strip s = rev ys" by (simp add: strip_def ys_def zs_def)
  with False have ys: "ys \<noteq> []" by simp
  then have zs: "zs \<noteq> []" by (auto simp: ys_def)
  have "last (strip s) = hd ys" using ys by (simp add: s last_rev)
  moreover have "\<not> isspace (hd ys)" using ys unfolding ys_def by (rule hd_dropWhile)
  moreover have "hd (strip s) = last ys" using ys by (simp add: s hd_rev)
  moreover have "last ys = last (rev zs)" using ys unfolding ys_def by (rule last_dropWhile)
  moreover have "last (rev zs) = hd zs" using zs by (simp add: last_rev)
  moreover have "\<not> isspace (hd zs)" using zs unfolding zs_def by (rule hd_dropWhile)
  ultimately show ?thesis by (simp add: has_surrounding_whitespace_def)
qed

lemma collect_affs_closed_form:
  "collect_affs es = map (\<lambda>e. strip (text_of e)) (filter (\<lambda>e. truthy (etext e)) es)"
  by (induction es) simp_all

lemma affiliations_author_info:
  "affiliations (author_info a) =
     map (\<lambda>e. strip (text_of e))
       (filter (\<lambda>e. truthy (etext e))
          (findall_desc_child a (str ''AffiliationInfo'') (str ''Affiliation'')))"
  by (simp add: author_info_def Let_def collect_affs_closed_form)

lemma no_keyword_in_empty: "\<not> contains_keyword [] COMPANY_KEYWORDS"
  by (simp add: contains_keyword_def COMPANY_KEYWORDS_def str_def lower_def to_lower_full_def)

subsection \<open>Dates\<close>

lemma is_ymd_digits:
  assumes "length y = 4" "list_all digit y" "length m = 2" "list_all digit m"
    "length d = 2" "list_all digit d"
  shows "is_ymd (y @ str ''-'' @ m @ str ''-'' @ d)"
proof -
  from assms(1) obtain y1 y2 y3 y4 where y: "y = [y1, y2, y3, y4]"
    by (auto simp: length_Suc_conv numeral_eq_Suc)
  from assms(3) obtain m1 m2 where m: "m = [m1, m2]"
    by (auto simp: length_Suc_conv numeral_eq_Suc)
  from assms(5) obtain d1 d2 where d: "d = [d1, d2]"
    by (auto simp: length_Suc_conv numeral_eq_Suc)
  show ?thesis using assms(2,4,6) by (simp add: y m d is_ymd_def str_def)
qed

subsection \<open>The pipeline\<close>

lemma filter_debug_print_report [simp]: "filter is_report (debug_print m b) = []"
  by (simp add: debug_print_def is_report_def)

lemma esearch_empty:
  assumes "fst (esearch w term rmax key dbg) = Inr ([], n)"
  shows "snd (esearch w term rmax key dbg) =
           debug_print (Calling_esearch
             (with_api_key [(str ''db'', PyStr (str ''pubmed'')), (str ''term'', PyStr term),
                (str ''retmode'', PyStr (str ''json'')), (str ''retmax'', PyInt rmax)] key)) dbg @
           debug_print (Esearch_result n []) dbg"
  using assms by (auto simp: esearch_def Let_def split: sum.splits prod.splits)

lemma extract_loop_map:
  "fst (extract_loop articles dbg) = map extract_record articles"
  by (induction articles) (auto simp: Let_def split: prod.splits)

subsection \<open>The example inputs, evaluated\<close>

lemmas xml_defs = node_def leaf_def findall_desc_def findall_child_def findall_desc_child_def
  first_def find_desc_def text_of_def findtext_desc_def findtext_child_def truthy_def or_else_def

lemma example_authors_info:
  "authors_info example_article =
     [\<lparr>name = str ''Jane Doe'', affiliations = [str ''Acme Biotech Inc, contact: jane@acme.com'']\<rparr>,
      \<lparr>name = str ''Bob Roe'', affiliations = [str ''Department of Physics, University of X'']\<rparr>,
      \<lparr>name = str ''Solo'', affiliations = []\<rparr>]"
  by (simp add: example_article_def example_author_jane_def example_author_bob_def
      example_author_solo_def authors_info_def author_info_def xml_defs strip_def isspace_def
      in_ranges_def str_def Let_def)

lemmas keyword_eval = contains_keyword_def str_def lower_def to_lower_full_def

lemma example_academic:
  "\<not> contains_keyword (str ''Acme Biotech Inc, contact: jane@acme.com'') ACADEMIC_KEYWORDS"
  "contains_keyword (str ''Department of Physics, University of X'') ACADEMIC_KEYWORDS"
  by (simp_all add: keyword_eval ACADEMIC_KEYWORDS_def)

lemma example_company:
  "contains_keyword (str ''Acme Biotech Inc, contact: jane@acme.com'') COMPANY_KEYWORDS"
  "\<not> contains_keyword (str ''Department of Physics, University of X'') COMPANY_KEYWORDS"
  by (simp_all add: keyword_eval COMPANY_KEYWORDS_def)

lemma example_search:
  "search EMAIL_REGEX (str ''Acme Biotech Inc, contact: jane@acme.com'') = Some (str ''jane@acme.com'')"
  by (simp add: EMAIL_REGEX_def str_def greedy_def local_char_def domain_char_def alpha_def digit_def)

lemma example_date_fields:
  "date_fields_of example_article =
     \<lparr>year = Some (str ''2020''), month = None, day = None, medline = None\<rparr>"
  by (simp add: example_article_def date_fields_of_def xml_defs str_def
      example_author_jane_def example_author_bob_def example_author_solo_def)

lemma example_company_affiliations:
  "company_affiliations example_article = [str ''Acme Biotech Inc, contact: jane@acme.com'']"
  by (simp add: company_affiliations_def classify_closed_form example_authors_info example_company)

section \<open>The claims about the extraction\<close>

text \<open>
  Claim C1: for every raw record and every author in it, the author's name is added to the
  non-academic authors exactly when none of the author's affiliation strings names an
  academic keyword and the name is not empty; an author without affiliations and with a
  name is therefore always included. The loop appends the names in author order, and the
  field of the paper is the sorted set of the appended names, joined with \<open>"; "\<close>.
\<close>

theorem non_academic_authors_iff:
  "non_academic_authors article =
     map name (filter (\<lambda>a. \<not> list_ex (\<lambda>aff. contains_keyword aff ACADEMIC_KEYWORDS) (affiliations a)
                            \<and> name a \<noteq> []) (authors_info article)) \<and>
   Non_academic_Authors (extract_record article)
     = join (str ''; '') (sorted_set (non_academic_authors article)) \<and>
   set (sorted_set (non_academic_authors article)) =
     {name a | a. a \<in> set (authors_info article) \<and>
        \<not> list_ex (\<lambda>aff. contains_keyword aff ACADEMIC_KEYWORDS) (affiliations a) \<and> name a \<noteq> []} \<and>
   (\<forall>a\<in>set (authors_info article).
      affiliations a = [] \<and> name a \<noteq> [] \<longrightarrow> name a \<in> set (sorted_set (non_academic_authors article)))"
proof -
  have eq: "non_academic_authors article =
     map name (filter (\<lambda>a. \<not> list_ex (\<lambda>aff. contains_keyword aff ACADEMIC_KEYWORDS) (affiliations a)
                            \<and> name a \<noteq> []) (authors_info article))"
    by (simp add: non_academic_authors_def classify_closed_form)
  have st: "set (sorted_set (non_academic_authors article)) =
     {name a | a. a \<in> set (authors_info article) \<and>
        \<not> list_ex (\<lambda>aff. contains_keyword aff ACADEMIC_KEYWORDS) (affiliations a) \<and> name a \<noteq> []}"
    unfolding set_sorted_set eq by auto
  have zero: "\<forall>a\<in>set (authors_info article).
      affiliations a = [] \<and> name a \<noteq> [] \<longrightarrow> name a \<in> set (sorted_set (non_academic_authors article))"
    unfolding st by auto
  show ?thesis using eq st zero Non_academic_Authors_field by blast
qed

theorem non_academic_authors_iff_witness:
  "non_academic_authors example_article = [str ''Jane Doe'', str ''Solo''] \<and>
   str ''Solo'' \<in> set (sorted_set (non_academic_authors example_article))"
proof -
  note t = non_academic_authors_iff [of example_article]
  have 1: "non_academic_authors example_article = [str ''Jane Doe'', str ''Solo'']"
    using t by (simp add: example_authors_info example_academic) (simp add: str_def)
  have "\<lparr>name = str ''Solo'', affiliations = []\<rparr> \<in> set (authors_info example_article)"
    by (simp add: example_authors_info)
  moreover have "str ''Solo'' \<noteq> []" by (simp add: str_def)
  ultimately have "str ''Solo'' \<in> set (sorted_set (non_academic_authors example_article))"
    using t by fastforce
  with 1 show ?thesis by simp
qed

text \<open>
  Claim C2: an affiliation string is added to the company affiliations exactly when it
  names a company keyword; the test runs over every affiliation of every author, whether
  the author is academic or not, and what is stored is the affiliation string itself.
\<close>

theorem company_affiliations_iff:
  "company_affiliations article =
     filter (\<lambda>aff. contains_keyword aff COMPANY_KEYWORDS)
       (concat (map affiliations (authors_info article))) \<and>
   Company_Affiliations (extract_record article)
     = join (str ''; '') (sorted_set (company_affiliations article)) \<and>
   set (sorted_set (company_affiliations article)) =
     {aff. (\<exists>a\<in>set (authors_info article). aff \<in> set (affiliations a)) \<and>
           contains_keyword aff COMPANY_KEYWORDS}"
proof -
  have eq: "company_affiliations article =
     filter (\<lambda>aff. contains_keyword aff COMPANY_KEYWORDS)
       (concat (map affiliations (authors_info article)))"
    by (simp add: company_affiliations_def classify_closed_form)
  have st: "set (sorted_set (company_affiliations article)) =
     {aff. (\<exists>a\<in>set (authors_info article). aff \<in> set (affiliations a)) \<and>
           contains_keyword aff COMPANY_KEYWORDS}"
    unfolding set_sorted_set eq by auto
  show ?thesis using eq st Company_Affiliations_field by blast
qed

theorem company_affiliations_iff_witness:
  "company_affiliations example_article = [str ''Acme Biotech Inc, contact: jane@acme.com'']"
  using company_affiliations_iff [of example_article]
  by (simp add: example_authors_info example_company)

text \<open>
  Claim C3: the corresponding email is the match of the email pattern in the first
  affiliation that has one, the authors taken in source order and the affiliations of each
  author in source order; within that affiliation no email-shaped substring starts
  further left than the match, and none that starts at the same place is longer; and the
  email is empty when no affiliation holds an email-shaped substring.
\<close>

theorem corresponding_email_first_match:
  "(let affs = concat (map affiliations (authors_info article));
        email = Corresponding_Author_Email (extract_record article)
    in ((\<forall>aff\<in>set affs. \<not> contains_email aff) \<longrightarrow> email = []) \<and>
       (\<forall>i<length affs. contains_email (affs ! i) \<and> (\<forall>j<i. \<not> contains_email (affs ! j))
            \<longrightarrow> leftmost_email (affs ! i) email))"
  unfolding Let_def Corresponding_Author_Email_field scan_authors_concat
  using scan_affs_none scan_affs_first by blast

theorem corresponding_email_first_match_witness:
  "leftmost_email (str ''Acme Biotech Inc, contact: jane@acme.com'')
     (Corresponding_Author_Email (extract_record example_article)) \<and>
   Corresponding_Author_Email (extract_record example_article) = str ''jane@acme.com''"
proof -
  let ?affs = "concat (map affiliations (authors_info example_article))"
  have affs: "?affs = [str ''Acme Biotech Inc, contact: jane@acme.com'',
                       str ''Department of Physics, University of X'']"
    by (simp add: example_authors_info)
  have "contains_email (str ''Acme Biotech Inc, contact: jane@acme.com'')"
    using example_search search_email_None [of "str ''Acme Biotech Inc, contact: jane@acme.com''"]
    by simp
  then have c: "contains_email (?affs ! 0)"
    by (simp add: affs)
  have "0 < length ?affs \<and> contains_email (?affs ! 0) \<and> (\<forall>j<0. \<not> contains_email (?affs ! j))"
    using c by (simp add: affs)
  then have "leftmost_email (?affs ! 0) (Corresponding_Author_Email (extract_record example_article))"
    using corresponding_email_first_match [of example_article] unfolding Let_def by blast
  moreover have "Corresponding_Author_Email (extract_record example_article) = str ''jane@acme.com''"
    by (simp add: Corresponding_Author_Email_field example_authors_info example_search Let_def)
      (simp add: str_def)
  ultimately show ?thesis by (simp add: affs)
qed

text \<open>
  Claim C4: in every paper, the non-academic authors and the company affiliations are each
  free of duplicates and sorted lexicographically. Each field is the list joined with
  \<open>"; "\<close>.
\<close>

theorem paper_sets_sorted_distinct:
  "Non_academic_Authors (extract_record article)
     = join (str ''; '') (sorted_set (non_academic_authors article)) \<and>
   distinct (sorted_set (non_academic_authors article)) \<and>
   sorted (sorted_set (non_academic_authors article)) \<and>
   Company_Affiliations (extract_record article)
     = join (str ''; '') (sorted_set (company_affiliations article)) \<and>
   distinct (sorted_set (company_affiliations article)) \<and>
   sorted (sorted_set (company_affiliations article))"
  by (simp add: Non_academic_Authors_field Company_Affiliations_field sorted_set_def)

theorem paper_sets_sorted_distinct_witness:
  "sorted (sorted_set (non_academic_authors example_article)) \<and>
   distinct (sorted_set (company_affiliations example_article))"
  using paper_sets_sorted_distinct [of example_article] by simp




text \<open>
  Claim C6, as stated: the publication date is always a numeric \<open>YYYY-MM-DD\<close> date, or
  the free-text date, or empty. The texts of the year, month and day are used as they
  are: with year \<open>2020\<close> and month \<open>Jan\<close> the date is \<open>2020-Jan-01\<close>.
\<close>

theorem pub_date_of_shape_counterexample:
  "pub_date_of example_article_month_name = str ''2020-Jan-01'' \<and>
   \<not> is_ymd (pub_date_of example_article_month_name) \<and>
   medline (date_fields_of example_article_month_name) = None \<and>
   pub_date_of example_article_month_name \<noteq> []"
  by (simp add: example_article_month_name_def date_fields_of_def pub_date_of_def is_ymd_def
      digit_def xml_defs str_def Let_def)

text \<open>
  Claim C6, amended: the publication date is always one of three shapes: the non-empty
  year text, the month text and the day text (each \<open>01\<close> when absent or empty) joined by
  hyphens, which is a numeric \<open>YYYY-MM-DD\<close> date when the year is four digits and the month
  and the day are two digits each; or the non-empty free-text date, when the year is
  absent or empty; or the empty string.
\<close>

theorem pub_date_of_shapes:
  "(let f = date_fields_of article; p = pub_date_of article;
        m = or_else (month f) (str ''01''); d = or_else (day f) (str ''01'')
    in ((\<exists>y. year f = Some y \<and> y \<noteq> [] \<and> m \<noteq> [] \<and> d \<noteq> [] \<and> p = y @ str ''-'' @ m @ str ''-'' @ d \<and>
            (length y = 4 \<and> list_all digit y \<and> length m = 2 \<and> list_all digit m \<and>
             length d = 2 \<and> list_all digit d \<longrightarrow> is_ymd p))
        \<or> (\<not> truthy (year f) \<and> medline f = Some p \<and> p \<noteq> [])
        \<or> p = []))"
proof -
  have m: "or_else x (str ''01'') \<noteq> []" for x
    by (simp add: or_else_def str_def split: option.splits)
  show ?thesis
    unfolding Let_def
    by (auto simp: date_fields_of_def pub_date_of_def truthy_def m is_ymd_digits Let_def
        split: option.splits) (simp_all add: or_else_def)
qed

theorem pub_date_of_shapes_witness:
  "pub_date_of example_article = str ''2020-01-01'' \<and> is_ymd (pub_date_of example_article)"
proof -
  have p: "pub_date_of example_article = str ''2020-01-01''"
    by (simp add: example_article_def pub_date_of_def xml_defs str_def Let_def)
  have "is_ymd (pub_date_of example_article)"
    using pub_date_of_shapes [of example_article] unfolding Let_def
    by (auto simp: example_date_fields or_else_def truthy_def) (simp_all add: p str_def digit_def)
  with p show ?thesis by simp
qed

text \<open>
  Claim C10: every affiliation string is stripped before it is classified, searched for
  an email and stored, and an \<open>Affiliation\<close> element without text, or with empty text, is
  dropped; so no company affiliation has surrounding whitespace and none is empty.
\<close>

theorem affiliations_stripped:
  "affiliations (author_info a) =
     map (\<lambda>e. strip (text_of e))
       (filter (\<lambda>e. truthy (etext e))
          (findall_desc_child a (str ''AffiliationInfo'') (str ''Affiliation''))) \<and>
   (\<forall>au\<in>set (authors_info article). \<forall>aff\<in>set (affiliations au).
      \<not> has_surrounding_whitespace aff) \<and>
   (\<forall>c\<in>set (sorted_set (company_affiliations article)).
      c \<noteq> [] \<and> \<not> has_surrounding_whitespace c \<and>
      c \<in> set (concat (map affiliations (authors_info article))))"
proof -
  have a: "\<forall>au\<in>set (authors_info article). \<forall>aff\<in>set (affiliations au).
      \<not> has_surrounding_whitespace aff"
    by (auto simp: authors_info_def affiliations_author_info strip_no_surrounding_whitespace)
  have c: "set (sorted_set (company_affiliations article)) =
     {aff. aff \<in> set (concat (map affiliations (authors_info article))) \<and>
           contains_keyword aff COMPANY_KEYWORDS}"
    by (auto simp: set_sorted_set company_affiliations_def classify_closed_form)
  have "\<forall>c\<in>set (sorted_set (company_affiliations article)).
      c \<noteq> [] \<and> \<not> has_surrounding_whitespace c \<and>
      c \<in> set (concat (map affiliations (authors_info article)))"
    unfolding c using a no_keyword_in_empty by auto
  with a affiliations_author_info show ?thesis by blast
qed

theorem affiliations_stripped_witness:
  "affiliations (author_info example_author_bob) = [str ''Department of Physics, University of X''] \<and>
   str ''Acme Biotech Inc, contact: jane@acme.com'' \<in> set (sorted_set (company_affiliations example_article)) \<and>
   \<not> has_surrounding_whitespace (str ''Acme Biotech Inc, contact: jane@acme.com'')"
proof -
  note t = affiliations_stripped [of example_author_bob example_article]
  have 1: "affiliations (author_info example_author_bob) = [str ''Department of Physics, University of X'']"
    using t by (simp add: example_author_bob_def xml_defs strip_def isspace_def in_ranges_def str_def)
  have 2: "str ''Acme Biotech Inc, contact: jane@acme.com'' \<in> set (sorted_set (company_affiliations example_article))"
    by (simp add: set_sorted_set example_company_affiliations)
  with t have "\<not> has_surrounding_whitespace (str ''Acme Biotech Inc, contact: jane@acme.com'')"
    by blast
  with 1 2 show ?thesis by simp
qed

section \<open>The claims about the pipeline\<close>

text \<open>
  Claim C8: when the search returns no identifier, the run prints the notice that no
  papers were found on the diagnostic stream, after the debug lines of the search if any,
  and ends there: nothing is fetched or extracted, the Report Writer is not invoked, no
  paper is reported and no failure is printed.
\<close>

theorem main_no_papers:
  assumes "fst (esearch w (query a) (retmax a) (api_key a) (debug a)) = Inr ([], n)"
  shows "main w a = snd (esearch w (query a) (retmax a) (api_key a) (debug a)) @ [Stderr No_papers_found] \<and>
         last (main w a) = Stderr No_papers_found \<and>
         filter is_report (main w a) = [] \<and>
         papers_reported (main w a) = [] \<and>
         filter is_failure (main w a) = []"
proof -
  obtain out where e: "esearch w (query a) (retmax a) (api_key a) (debug a) = (Inr ([], n), out)"
    using assms by (cases "esearch w (query a) (retmax a) (api_key a) (debug a)") simp
  have m: "main w a = out @ [Stderr No_papers_found]"
    by (simp add: main_def e)
  have out: "out = debug_print (Calling_esearch
             (with_api_key [(str ''db'', PyStr (str ''pubmed'')), (str ''term'', PyStr (query a)),
                (str ''retmode'', PyStr (str ''json'')), (str ''retmax'', PyInt (retmax a))] (api_key a))) (debug a) @
           debug_print (Esearch_result n []) (debug a)"
    using esearch_empty[OF assms] e by simp
  have "filter is_report (main w a) = []"
    unfolding m out by (simp add: is_report_def)
  moreover have "filter is_failure (main w a) = []"
    unfolding m out by (simp add: is_failure_def debug_print_def)
  moreover have "papers_reported (main w a) = []"
    unfolding m out by (simp add: papers_reported_def debug_print_def)
  ultimately show ?thesis using m e by simp
qed

theorem main_no_papers_witness:
  "main example_world example_args = [Stderr No_papers_found]"
proof -
  have e: "esearch example_world (query example_args) (retmax example_args) (api_key example_args)
             (debug example_args) = (Inr ([], 0), [])"
    by (simp add: esearch_def example_world_def example_args_def with_api_key_def truthy_def
        debug_print_def Let_def)
  then have "fst (esearch example_world (query example_args) (retmax example_args)
      (api_key example_args) (debug example_args)) = Inr ([], 0)" by simp
  from main_no_papers [OF this] show ?thesis by (simp add: e)
qed

text \<open>
  Claim C9, as stated: a batch in which no container of a bibliographic record can be
  located makes the extraction fail with a parse failure. The source has no such check: a
  well-formed batch without any \<open>PubmedArticle\<close> element yields the empty list of papers,
  and the run goes on to write a report without rows.
\<close>

theorem extract_papers_no_container_counterexample:
  "findall_desc (node ''eFetchResult'' [leaf ''ERROR'' ''x'']) (str ''PubmedArticle'') = [] \<and>
   extract_papers (fromstring example_world_no_articles)
     (str ''<eFetchResult><ERROR>x</ERROR></eFetchResult>'') False = (Inr [], []) \<and>
   main example_world_no_articles example_args = [Csv_to_stdout []]"
proof -
  have e1: "esearch example_world_no_articles (query example_args) (retmax example_args)
      (api_key example_args) (debug example_args) = (Inr ([str ''31452104''], 1), [])"
    by (simp add: esearch_def example_world_no_articles_def example_args_def with_api_key_def
        truthy_def debug_print_def Let_def)
  have d: "debug example_args = False" "api_key example_args = None" "file_path example_args = None"
    by (simp_all add: example_args_def)
  have e3: "efetch example_world_no_articles [str ''31452104''] None False
      = (Inr (str ''<eFetchResult><ERROR>x</ERROR></eFetchResult>''), [])"
    by (simp add: efetch_def example_world_no_articles_def with_api_key_def
        truthy_def debug_print_def Let_def)
  have f: "findall_desc (node ''eFetchResult'' [leaf ''ERROR'' ''x'']) (str ''PubmedArticle'') = []"
    by (simp add: node_def leaf_def findall_desc_def str_def)
  have x: "extract_papers (fromstring example_world_no_articles)
     (str ''<eFetchResult><ERROR>x</ERROR></eFetchResult>'') False = (Inr [], [])"
    by (simp add: extract_papers_def example_world_no_articles_def f)
  have "main example_world_no_articles example_args = [Csv_to_stdout []]"
    unfolding main_def e1 by (simp add: d e3 x output_csv_def truthy_def)
  with f x show ?thesis by simp
qed

text \<open>
  Claim C9, amended: a batch that the XML parser rejects makes the extraction raise the
  parse failure for the whole batch, and the run then prints the failure on the
  diagnostic stream and ends without invoking the Report Writer; a batch that the parser
  accepts never makes the extraction raise, whatever its records lack: it yields one
  paper for each \<open>PubmedArticle\<close> element, none when there is none.
\<close>

theorem extract_papers_parse_failure:
  "(parse xml_text = Inl e \<longrightarrow> extract_papers parse xml_text dbg = (Inl e, [])) \<and>
   (parse xml_text = Inr root \<longrightarrow>
      fst (extract_papers parse xml_text dbg)
        = Inr (map extract_record (findall_desc root (str ''PubmedArticle'')))) \<and>
   (fst (esearch w (query a) (retmax a) (api_key a) (debug a)) = Inr (pmids, n) \<and> pmids \<noteq> [] \<and>
    fst (efetch w pmids (api_key a) (debug a)) = Inr xml_data \<and>
    fromstring w xml_data = Inl (ParseError msg) \<longrightarrow>
      last (main w a) = Stderr (Unexpected_error msg) \<and> filter is_report (main w a) = [])"
proof -
  have 1: "parse xml_text = Inl e \<longrightarrow> extract_papers parse xml_text dbg = (Inl e, [])"
    by (simp add: extract_papers_def)
  have 2: "parse xml_text = Inr root \<longrightarrow>
      fst (extract_papers parse xml_text dbg)
        = Inr (map extract_record (findall_desc root (str ''PubmedArticle'')))"
    using extract_loop_map[of "findall_desc root (str ''PubmedArticle'')" dbg]
    by (auto simp: extract_papers_def split: prod.splits)
  have 3: "last (main w a) = Stderr (Unexpected_error msg) \<and> filter is_report (main w a) = []"
    if s: "fst (esearch w (query a) (retmax a) (api_key a) (debug a)) = Inr (pmids, n)"
      and ne: "pmids \<noteq> []"
      and f: "fst (efetch w pmids (api_key a) (debug a)) = Inr xml_data"
      and p: "fromstring w xml_data = Inl (ParseError msg)"
  proof -
    obtain out1 where e1: "esearch w (query a) (retmax a) (api_key a) (debug a) = (Inr (pmids, n), out1)"
      using s by (cases "esearch w (query a) (retmax a) (api_key a) (debug a)") simp
    obtain out3 where e3: "efetch w pmids (api_key a) (debug a) = (Inr xml_data, out3)"
      using f by (cases "efetch w pmids (api_key a) (debug a)") simp
    have o1: "filter is_report out1 = []"
      using e1 by (auto simp: esearch_def Let_def split: sum.splits prod.splits)
    have o3: "filter is_report out3 = []"
      using e3 by (auto simp: efetch_def Let_def split: if_splits)
    have m: "main w a = out1 @ (if debug a then [Stderr (Total_hits n pmids)] else []) @ out3
                @ [Stderr (Unexpected_error msg)]"
      by (simp add: main_def e1 e3 ne extract_papers_def p handler_def Let_def)
    show ?thesis unfolding m using o1 o3 by (simp add: is_report_def)
  qed
  from 1 2 3 show ?thesis by blast
qed

theorem extract_papers_parse_failure_witness:
  "main example_world_malformed example_args = [Stderr (Unexpected_error (str ''no element found''))] \<and>
   fst (extract_papers (fromstring example_world_no_articles) [] False) = Inr []"
proof -
  have e1: "esearch example_world_malformed (query example_args) (retmax example_args)
      (api_key example_args) (debug example_args) = (Inr ([str ''31452104''], 1), [])"
    by (simp add: esearch_def example_world_malformed_def example_args_def with_api_key_def
        truthy_def debug_print_def Let_def)
  have d: "debug example_args = False" "api_key example_args = None" "file_path example_args = None"
    by (simp_all add: example_args_def)
  have e3: "efetch example_world_malformed [str ''31452104''] None False
      = (Inr (str ''<PubmedArticleSet>''), [])"
    by (simp add: efetch_def example_world_malformed_def with_api_key_def
        truthy_def debug_print_def Let_def)
  have p: "fromstring example_world_malformed (str ''<PubmedArticleSet>'')
      = Inl (ParseError (str ''no element found''))"
    by (simp add: example_world_malformed_def)
  have m: "main example_world_malformed example_args
      = [Stderr (Unexpected_error (str ''no element found''))]"
    unfolding main_def e1 by (simp add: d e3 extract_papers_def p handler_def)
  have q: "fromstring example_world_no_articles [] = Inr (node ''eFetchResult'' [leaf ''ERROR'' ''x''])"
    by (simp add: example_world_no_articles_def)
  have "fst (extract_papers (fromstring example_world_no_articles) [] False)
      = Inr (map extract_record (findall_desc (node ''eFetchResult'' [leaf ''ERROR'' ''x'']) (str ''PubmedArticle'')))"
    using extract_papers_parse_failure
      [where parse = "fromstring example_world_no_articles" and xml_text = "[]"
         and root = "node ''eFetchResult'' [leaf ''ERROR'' ''x'']" and dbg = False]
      q by blast
  then have "fst (extract_papers (fromstring example_world_no_articles) [] False) = Inr []"
    by (simp add: node_def leaf_def findall_desc_def str_def)
  with m show ?thesis by simp
qed


end
